theory Spec2Isabelle
  imports Complex_Main "HOL-Library.AList" "HOL-Library.Multiset"
begin

section \<open>Python values and exceptions\<close>

text \<open>
  The programs work on the values that \<^verbatim>\<open>json.load\<close> and \<^verbatim>\<open>response.json()\<close>
  produce: \<^verbatim>\<open>None\<close>, booleans, numbers, strings, lists and dictionaries with string keys.
  A dictionary is an association list in insertion order with distinct keys; a key is looked
  up at its first binding. Python's \<^verbatim>\<open>int\<close> and \<^verbatim>\<open>float\<close> are both read as real
  numbers: the rounding of IEEE doubles is not represented. The floats that are not
  numbers of that kind, NaN and the two infinities, are values of their own.
\<close>

datatype special = NaN | PosInf | NegInf

datatype pyval =
    PNone
  | PBool bool
  | PNum real
  | PSpecial special
  | PStr string
  | PList "pyval list"
  | PDict "(string \<times> pyval) list"

datatype py_error =
  KeyError | IndexError | TypeError | ValueError | AttributeError | ZeroDivisionError

text \<open>Sequencing of a computation that may raise: the first exception propagates.\<close>

definition and_then :: "py_error + 'a \<Rightarrow> ('a \<Rightarrow> py_error + 'b) \<Rightarrow> py_error + 'b" where
  "and_then m f = (case m of Inl e \<Rightarrow> Inl e | Inr v \<Rightarrow> f v)"

text \<open>Truth value of an object, as \<^verbatim>\<open>not x\<close> and \<^verbatim>\<open>if x\<close> test it.\<close>

fun truthy :: "pyval \<Rightarrow> bool" where
  "truthy PNone = False"
| "truthy (PBool b) = b"
| "truthy (PNum x) = (x \<noteq> 0)"
| "truthy (PSpecial s) = True"
| "truthy (PStr s) = (s \<noteq> [])"
| "truthy (PList xs) = (xs \<noteq> [])"
| "truthy (PDict kvs) = (kvs \<noteq> [])"

text \<open>\<^verbatim>\<open>d.get(k, default)\<close>: only a dictionary has the method.\<close>

fun dict_get :: "pyval \<Rightarrow> string \<Rightarrow> pyval \<Rightarrow> py_error + pyval" where
  "dict_get (PDict kvs) k dflt = Inr (case map_of kvs k of None \<Rightarrow> dflt | Some v \<Rightarrow> v)"
| "dict_get _ k dflt = Inl AttributeError"

text \<open>\<^verbatim>\<open>d[k]\<close> with a string \<open>k\<close>: \<^verbatim>\<open>KeyError\<close> on a dictionary without the key,
  \<^verbatim>\<open>TypeError\<close> on every other object.\<close>

fun subscript :: "pyval \<Rightarrow> string \<Rightarrow> py_error + pyval" where
  "subscript (PDict kvs) k = (case map_of kvs k of None \<Rightarrow> Inl KeyError | Some v \<Rightarrow> Inr v)"
| "subscript _ k = Inl TypeError"

text \<open>\<^verbatim>\<open>d[k] = v\<close>: an existing key keeps its position, a new key goes last.\<close>

fun setitem :: "pyval \<Rightarrow> string \<Rightarrow> pyval \<Rightarrow> py_error + pyval" where
  "setitem (PDict kvs) k v = Inr (PDict (AList.update k v kvs))"
| "setitem _ k v = Inl TypeError"

text \<open>\<^verbatim>\<open>d[k1][k2] = v\<close>, written for a dictionary held inside a dictionary.\<close>

definition setitem2 :: "pyval \<Rightarrow> string \<Rightarrow> string \<Rightarrow> pyval \<Rightarrow> py_error + pyval" where
  "setitem2 d k1 k2 v =
     and_then (subscript d k1) (\<lambda>inner.
     and_then (setitem inner k2 v) (\<lambda>inner'.
       setitem d k1 inner'))"

text \<open>\<^verbatim>\<open>x.copy()\<close>, a shallow copy.\<close>

fun py_copy :: "pyval \<Rightarrow> py_error + pyval" where
  "py_copy (PDict kvs) = Inr (PDict kvs)"
| "py_copy (PList xs) = Inr (PList xs)"
| "py_copy _ = Inl AttributeError"

text \<open>The elements a \<^verbatim>\<open>for\<close> loop visits: a dictionary yields its keys, a string its
  characters (each a string again).\<close>

fun py_iter :: "pyval \<Rightarrow> py_error + pyval list" where
  "py_iter (PList xs) = Inr xs"
| "py_iter (PDict kvs) = Inr (map (\<lambda>kv. PStr (fst kv)) kvs)"
| "py_iter (PStr s) = Inr (map (\<lambda>c. PStr [c]) s)"
| "py_iter _ = Inl TypeError"

text \<open>
  \<^verbatim>\<open>float(x)\<close> where the temperatures are read, with finite results. The conversion of
  a string is Python's own and is a parameter \<open>pf\<close> of the model: \<open>pf s = None\<close> where
  \<^verbatim>\<open>float(s)\<close> raises \<^verbatim>\<open>ValueError\<close>. A temperature that is NaN or infinite is not
  followed: the model has no such temperature.
\<close>

fun py_float :: "(string \<Rightarrow> real option) \<Rightarrow> pyval \<Rightarrow> py_error + real" where
  "py_float pf (PStr s) = (case pf s of None \<Rightarrow> Inl ValueError | Some x \<Rightarrow> Inr x)"
| "py_float pf (PNum x) = Inr x"
| "py_float pf (PBool b) = Inr (if b then 1 else 0)"
| "py_float pf _ = Inl TypeError"

text \<open>\<^verbatim>\<open>round(x, 2)\<close>: to the nearest multiple of 0.01, a tie going to the even one.\<close>

definition py_round2 :: "real \<Rightarrow> real" where
  "py_round2 x =
     (let y = x * 100; f = \<lfloor>y\<rfloor>; d = y - of_int f
      in (if d < 1 / 2 then of_int f
          else if 1 / 2 < d then of_int (f + 1)
          else if even f then of_int f else of_int (f + 1)) / 100)"

text \<open>A list comprehension whose element expression may raise: left to right, the
  first exception ends it.\<close>

fun collect :: "('a \<Rightarrow> py_error + 'b) \<Rightarrow> 'a list \<Rightarrow> py_error + 'b list" where
  "collect f [] = Inr []"
| "collect f (x # xs) =
     (case f x of
        Inl e \<Rightarrow> Inl e
      | Inr y \<Rightarrow> (case collect f xs of Inl e \<Rightarrow> Inl e | Inr ys \<Rightarrow> Inr (y # ys)))"

text \<open>A list comprehension with a condition that may raise.\<close>

fun filter_raising :: "('a \<Rightarrow> py_error + bool) \<Rightarrow> 'a list \<Rightarrow> py_error + 'a list" where
  "filter_raising p [] = Inr []"
| "filter_raising p (x # xs) =
     (case p x of
        Inl e \<Rightarrow> Inl e
      | Inr b \<Rightarrow> (case filter_raising p xs of
                    Inl e \<Rightarrow> Inl e
                  | Inr ys \<Rightarrow> Inr (if b then x # ys else ys)))"

text \<open>\<^verbatim>\<open>min\<close>, \<^verbatim>\<open>max\<close> and \<^verbatim>\<open>sum\<close> over a list of numbers, and the mean
  \<^verbatim>\<open>sum(xs) / len(xs)\<close>.\<close>

fun py_min :: "real list \<Rightarrow> py_error + real" where
  "py_min [] = Inl ValueError"
| "py_min (x # xs) = Inr (fold (\<lambda>y m. if y < m then y else m) xs x)"

fun py_max :: "real list \<Rightarrow> py_error + real" where
  "py_max [] = Inl ValueError"
| "py_max (x # xs) = Inr (fold (\<lambda>y m. if m < y then y else m) xs x)"

definition py_sum :: "real list \<Rightarrow> real" where
  "py_sum xs = fold (\<lambda>x s. s + x) xs 0"

definition py_mean :: "real list \<Rightarrow> py_error + real" where
  "py_mean xs = (if length xs = 0 then Inl ZeroDivisionError else Inr (py_sum xs / real (length xs)))"

text \<open>\<^verbatim>\<open>xs[i]\<close> for \<open>i \<ge> 0\<close>.\<close>

definition py_index :: "'a list \<Rightarrow> nat \<Rightarrow> py_error + 'a" where
  "py_index xs i = (if i < length xs then Inr (xs ! i) else Inl IndexError)"

section \<open>distance\_calculator.py\<close>

subsection \<open>haversine\_distance\<close>

text \<open>\<^verbatim>\<open>math.radians\<close>, \<^verbatim>\<open>math.sqrt\<close> and \<^verbatim>\<open>math.asin\<close>; the last two raise
  \<^verbatim>\<open>ValueError\<close> outside their domain.\<close>

definition radians :: "real \<Rightarrow> real" where
  "radians x = x * (pi / 180)"

definition py_sqrt :: "real \<Rightarrow> py_error + real" where
  "py_sqrt x = (if x < 0 then Inl ValueError else Inr (sqrt x))"

definition py_asin :: "real \<Rightarrow> py_error + real" where
  "py_asin x = (if x < - 1 \<or> 1 < x then Inl ValueError else Inr (arcsin x))"

definition haversine_distance :: "real \<Rightarrow> real \<Rightarrow> real \<Rightarrow> real \<Rightarrow> py_error + real" where
  "haversine_distance lat1 lon1 lat2 lon2 =
     (let lat1 = radians lat1; lon1 = radians lon1; lat2 = radians lat2; lon2 = radians lon2;
          dlat = lat2 - lat1;
          dlon = lon2 - lon1;
          a = (sin (dlat / 2))\<^sup>2 + cos lat1 * cos lat2 * (sin (dlon / 2))\<^sup>2
      in and_then (py_sqrt a) (\<lambda>root.
         and_then (py_asin root) (\<lambda>asin_root.
           let c = 2 * asin_root;
               r = 6371;
               distance = c * r
           in Inr distance)))"

subsection \<open>haversine\_distance on floats that are not numbers\<close>

text \<open>
  \<^verbatim>\<open>float\<close> turns the strings \<^verbatim>\<open>'nan'\<close>, \<^verbatim>\<open>'inf'\<close> and \<^verbatim>\<open>'1e400'\<close> into floats too, so a
  coordinate can be NaN or infinite. The arithmetic of \<open>haversine_distance\<close> is written
  out here for such floats as well: NaN goes through every operation, an infinity goes
  through the subtraction and the division, and \<^verbatim>\<open>math.sin\<close> and \<^verbatim>\<open>math.cos\<close> raise
  \<^verbatim>\<open>ValueError\<close> on it.
\<close>

datatype pyfloat = Fin real | Special special


fun f_radians :: "pyfloat \<Rightarrow> pyfloat" where
  "f_radians (Fin x) = Fin (radians x)"
| "f_radians (Special s) = Special s"

text \<open>\<open>x - y\<close>.\<close>

fun f_sub :: "pyfloat \<Rightarrow> pyfloat \<Rightarrow> pyfloat" where
  "f_sub (Fin x) (Fin y) = Fin (x - y)"
| "f_sub (Special NaN) y = Special NaN"
| "f_sub x (Special NaN) = Special NaN"
| "f_sub (Special PosInf) (Special PosInf) = Special NaN"
| "f_sub (Special NegInf) (Special NegInf) = Special NaN"
| "f_sub (Special s) y = Special s"
| "f_sub (Fin x) (Special PosInf) = Special NegInf"
| "f_sub (Fin x) (Special NegInf) = Special PosInf"

text \<open>\<open>x / 2\<close>.\<close>

fun f_half :: "pyfloat \<Rightarrow> pyfloat" where
  "f_half (Fin x) = Fin (x / 2)"
| "f_half (Special s) = Special s"

fun f_sin :: "pyfloat \<Rightarrow> py_error + pyfloat" where
  "f_sin (Fin x) = Inr (Fin (sin x))"
| "f_sin (Special NaN) = Inr (Special NaN)"
| "f_sin (Special s) = Inl ValueError"

fun f_cos :: "pyfloat \<Rightarrow> py_error + pyfloat" where
  "f_cos (Fin x) = Inr (Fin (cos x))"
| "f_cos (Special NaN) = Inr (Special NaN)"
| "f_cos (Special s) = Inl ValueError"

text \<open>\<open>x ** 2\<close>.\<close>

fun f_square :: "pyfloat \<Rightarrow> pyfloat" where
  "f_square (Fin x) = Fin (x\<^sup>2)"
| "f_square (Special NaN) = Special NaN"
| "f_square (Special s) = Special PosInf"

fun negated :: "special \<Rightarrow> special" where
  "negated NaN = NaN"
| "negated PosInf = NegInf"
| "negated NegInf = PosInf"

text \<open>\<open>x * y\<close>: an infinity times zero is NaN.\<close>

fun f_mul :: "pyfloat \<Rightarrow> pyfloat \<Rightarrow> pyfloat" where
  "f_mul (Fin x) (Fin y) = Fin (x * y)"
| "f_mul (Special NaN) y = Special NaN"
| "f_mul x (Special NaN) = Special NaN"
| "f_mul (Special s) (Fin y) =
     (if y = 0 then Special NaN else if 0 < y then Special s else Special (negated s))"
| "f_mul (Fin x) (Special s) =
     (if x = 0 then Special NaN else if 0 < x then Special s else Special (negated s))"
| "f_mul (Special s) (Special t) = (if s = t then Special PosInf else Special NegInf)"

text \<open>\<open>x + y\<close>: the two infinities add up to NaN.\<close>

fun f_add :: "pyfloat \<Rightarrow> pyfloat \<Rightarrow> pyfloat" where
  "f_add (Fin x) (Fin y) = Fin (x + y)"
| "f_add (Special NaN) y = Special NaN"
| "f_add x (Special NaN) = Special NaN"
| "f_add (Special PosInf) (Special NegInf) = Special NaN"
| "f_add (Special NegInf) (Special PosInf) = Special NaN"
| "f_add (Special s) y = Special s"
| "f_add (Fin x) (Special s) = Special s"

fun f_sqrt :: "pyfloat \<Rightarrow> py_error + pyfloat" where
  "f_sqrt (Fin x) = and_then (py_sqrt x) (\<lambda>r. Inr (Fin r))"
| "f_sqrt (Special NaN) = Inr (Special NaN)"
| "f_sqrt (Special PosInf) = Inr (Special PosInf)"
| "f_sqrt (Special NegInf) = Inl ValueError"

fun f_asin :: "pyfloat \<Rightarrow> py_error + pyfloat" where
  "f_asin (Fin x) = and_then (py_asin x) (\<lambda>r. Inr (Fin r))"
| "f_asin (Special NaN) = Inr (Special NaN)"
| "f_asin (Special s) = Inl ValueError"

definition haversine_distance_float ::
  "pyfloat \<Rightarrow> pyfloat \<Rightarrow> pyfloat \<Rightarrow> pyfloat \<Rightarrow> py_error + pyfloat" where
  "haversine_distance_float lat1 lon1 lat2 lon2 =
     (let lat1 = f_radians lat1; lon1 = f_radians lon1;
          lat2 = f_radians lat2; lon2 = f_radians lon2;
          dlat = f_sub lat2 lat1;
          dlon = f_sub lon2 lon1
      in and_then (f_sin (f_half dlat)) (\<lambda>sin_dlat.
         and_then (f_cos lat1) (\<lambda>cos_lat1.
         and_then (f_cos lat2) (\<lambda>cos_lat2.
         and_then (f_sin (f_half dlon)) (\<lambda>sin_dlon.
           let a = f_add (f_square sin_dlat)
                     (f_mul (f_mul cos_lat1 cos_lat2) (f_square sin_dlon))
           in and_then (f_sqrt a) (\<lambda>root.
              and_then (f_asin root) (\<lambda>asin_root.
                let c = f_mul (Fin 2) asin_root;
                    r = Fin 6371;
                    distance = f_mul c r
                in Inr distance)))))))"

text \<open>\<^verbatim>\<open>float(x)\<close> where the coordinates are read. Here the conversion of a string is a
  parameter that may give NaN or an infinity as well.\<close>

fun float_of :: "(string \<Rightarrow> pyfloat option) \<Rightarrow> pyval \<Rightarrow> py_error + pyfloat" where
  "float_of pf (PStr s) = (case pf s of None \<Rightarrow> Inl ValueError | Some x \<Rightarrow> Inr x)"
| "float_of pf (PNum x) = Inr (Fin x)"
| "float_of pf (PSpecial s) = Inr (Special s)"
| "float_of pf (PBool b) = Inr (Fin (if b then 1 else 0))"
| "float_of pf _ = Inl TypeError"

text \<open>\<^verbatim>\<open>round(x, 2)\<close> on such a float, and the float as a value.\<close>

fun f_round2 :: "pyfloat \<Rightarrow> pyfloat" where
  "f_round2 (Fin x) = Fin (py_round2 x)"
| "f_round2 (Special s) = Special s"

fun as_value :: "pyfloat \<Rightarrow> pyval" where
  "as_value (Fin x) = PNum x"
| "as_value (Special s) = PSpecial s"

subsection \<open>calculate\_distances\_to\_taipei\_station\<close>

text \<open>
  Lines 48 to 68, the part of the \<^verbatim>\<open>try\<close> body that reads the station: \<open>Inr None\<close> is
  the \<^verbatim>\<open>continue\<close> of line 52, \<open>Inr (Some info)\<close> the dictionary that line 62 stores
  under \<^verbatim>\<open>'distance_to_taipei'\<close>. The reference point is a pair of finite floats.
\<close>

definition station_distance ::
  "(string \<Rightarrow> pyfloat option) \<Rightarrow> pyval \<Rightarrow> real \<Rightarrow> real \<Rightarrow> py_error + pyval option" where
  "station_distance pf station taipei_lat taipei_lon =
     and_then (subscript station ''location'') (\<lambda>location.
     and_then (subscript location ''latitude'') (\<lambda>lat_str.
     and_then (subscript station ''location'') (\<lambda>location.
     and_then (subscript location ''longitude'') (\<lambda>lon_str.
       if \<not> truthy lat_str \<or> \<not> truthy lon_str then Inr None
       else
         and_then (float_of pf lat_str) (\<lambda>lat.
         and_then (float_of pf lon_str) (\<lambda>lon.
         and_then (haversine_distance_float lat lon (Fin taipei_lat) (Fin taipei_lon))
           (\<lambda>distance.
           Inr (Some (PDict
             [(''kilometers'', as_value (f_round2 distance)),
              (''taipei_station_coords'',
                 PDict [(''latitude'', PNum taipei_lat),
                        (''longitude'', PNum taipei_lon)])])))))))))"

text \<open>The whole \<^verbatim>\<open>try\<close> body: lines 61 and 62 copy the station and set the key on the
  copy.\<close>

definition station_with_distance ::
  "(string \<Rightarrow> pyfloat option) \<Rightarrow> pyval \<Rightarrow> real \<Rightarrow> real \<Rightarrow> py_error + pyval option" where
  "station_with_distance pf station taipei_lat taipei_lon =
     and_then (station_distance pf station taipei_lat taipei_lon) (\<lambda>r.
       case r of
         None \<Rightarrow> Inr None
       | Some info \<Rightarrow>
           and_then (py_copy station) (\<lambda>copied.
           and_then (setitem copied ''distance_to_taipei'' info) (\<lambda>augmented.
             Inr (Some augmented))))"

text \<open>\<^verbatim>\<open>except (ValueError, TypeError, KeyError)\<close>.\<close>

fun caught :: "py_error \<Rightarrow> bool" where
  "caught ValueError = True"
| "caught TypeError = True"
| "caught KeyError = True"
| "caught _ = False"

text \<open>The loop of lines 45 to 74. The handler formats
  \<^verbatim>\<open>station.get('station_name', 'Unknown')\<close> into its message, and what that raises is
  not caught.\<close>

fun distances_loop ::
  "(string \<Rightarrow> pyfloat option) \<Rightarrow> real \<Rightarrow> real \<Rightarrow> pyval list \<Rightarrow> pyval list \<Rightarrow> py_error + pyval list"
  where
  "distances_loop pf taipei_lat taipei_lon stations_with_distance [] =
     Inr stations_with_distance"
| "distances_loop pf taipei_lat taipei_lon stations_with_distance (station # rest) =
     (case station_with_distance pf station taipei_lat taipei_lon of
        Inr None \<Rightarrow> distances_loop pf taipei_lat taipei_lon stations_with_distance rest
      | Inr (Some augmented) \<Rightarrow>
          distances_loop pf taipei_lat taipei_lon (stations_with_distance @ [augmented]) rest
      | Inl e \<Rightarrow>
          if caught e then
            (case dict_get station ''station_name'' (PStr ''Unknown'') of
               Inl e' \<Rightarrow> Inl e'
             | Inr shown \<Rightarrow>
                 distances_loop pf taipei_lat taipei_lon stations_with_distance rest)
          else Inl e)"

definition calculate_distances_to_taipei_station ::
  "(string \<Rightarrow> pyfloat option) \<Rightarrow> pyval list \<Rightarrow> real \<Rightarrow> real \<Rightarrow> py_error + pyval list" where
  "calculate_distances_to_taipei_station pf weather_data taipei_lat taipei_lon =
     distances_loop pf taipei_lat taipei_lon [] weather_data"

subsection \<open>The same function over a store\<close>

text \<open>
  To see which objects the function writes, the station dictionaries are put in a store:
  an address is an index into the list of objects, \<^verbatim>\<open>weather_data\<close> is a list of
  addresses, \<^verbatim>\<open>station.copy()\<close> allocates a new object after the last one and the
  assignment of line 62 overwrites the object at the address it is given. The function
  returns the store it leaves with the addresses of its output, or with the exception.
\<close>

type_synonym store = "pyval list"

definition store_copy :: "store \<Rightarrow> nat \<Rightarrow> py_error + (store \<times> nat)" where
  "store_copy h a =
     (case py_copy (h ! a) of Inl e \<Rightarrow> Inl e | Inr c \<Rightarrow> Inr (h @ [c], length h))"

definition store_setitem :: "store \<Rightarrow> nat \<Rightarrow> string \<Rightarrow> pyval \<Rightarrow> py_error + store" where
  "store_setitem h a k v =
     (case setitem (h ! a) k v of Inl e \<Rightarrow> Inl e | Inr d \<Rightarrow> Inr (h[a := d]))"

text \<open>The \<^verbatim>\<open>try\<close> body over the store: the store it leaves, and the address of the
  augmented copy, \<open>None\<close> for the \<^verbatim>\<open>continue\<close> of line 52, or the exception.\<close>

definition station_with_distance_store ::
  "(string \<Rightarrow> pyfloat option) \<Rightarrow> store \<Rightarrow> nat \<Rightarrow> real \<Rightarrow> real
     \<Rightarrow> store \<times> (py_error + nat option)" where
  "station_with_distance_store pf h station taipei_lat taipei_lon =
     (case station_distance pf (h ! station) taipei_lat taipei_lon of
        Inl e \<Rightarrow> (h, Inl e)
      | Inr None \<Rightarrow> (h, Inr None)
      | Inr (Some info) \<Rightarrow>
          (case store_copy h station of
             Inl e \<Rightarrow> (h, Inl e)
           | Inr (h1, copied) \<Rightarrow>
               (case store_setitem h1 copied ''distance_to_taipei'' info of
                  Inl e \<Rightarrow> (h1, Inl e)
                | Inr h2 \<Rightarrow> (h2, Inr (Some copied)))))"

fun distances_loop_store ::
  "(string \<Rightarrow> pyfloat option) \<Rightarrow> real \<Rightarrow> real \<Rightarrow> nat list \<Rightarrow> store \<Rightarrow> nat list
     \<Rightarrow> store \<times> (py_error + nat list)" where
  "distances_loop_store pf taipei_lat taipei_lon stations_with_distance h [] =
     (h, Inr stations_with_distance)"
| "distances_loop_store pf taipei_lat taipei_lon stations_with_distance h (station # rest) =
     (case station_with_distance_store pf h station taipei_lat taipei_lon of
        (h1, Inr None) \<Rightarrow>
          distances_loop_store pf taipei_lat taipei_lon stations_with_distance h1 rest
      | (h1, Inr (Some augmented)) \<Rightarrow>
          distances_loop_store pf taipei_lat taipei_lon
            (stations_with_distance @ [augmented]) h1 rest
      | (h1, Inl e) \<Rightarrow>
          if caught e then
            (case dict_get (h1 ! station) ''station_name'' (PStr ''Unknown'') of
               Inl e' \<Rightarrow> (h1, Inl e')
             | Inr shown \<Rightarrow>
                 distances_loop_store pf taipei_lat taipei_lon stations_with_distance h1 rest)
          else (h1, Inl e))"

definition calculate_distances_store ::
  "(string \<Rightarrow> pyfloat option) \<Rightarrow> store \<Rightarrow> nat list \<Rightarrow> real \<Rightarrow> real \<Rightarrow> store \<times> (py_error + nat list)"
  where
  "calculate_distances_store pf h weather_data taipei_lat taipei_lon =
     distances_loop_store pf taipei_lat taipei_lon [] h weather_data"

subsection \<open>print\_distance\_summary\<close>

text \<open>
  The function prints and returns nothing. The model returns what it has printed and how
  it ended: the lines that carry data, in the order of their printing, up to the end of
  the function or to the exception that leaves it. The lines are the no-data message of
  line 106, the four statistics of lines 123 to 126 and the rows of the loops of lines 129
  and 138, each row with the station that it shows. The headings and captions (lines 115
  to 119, 122, 128 and 137) are left out.
\<close>

datatype printed =
    NoDataLine
  | MinLine real
  | MaxLine real
  | MeanLine real
  | MedianLine real
  | NearestRow pyval
  | FarthestRow pyval

datatype outcome = Returned | Raised py_error | NotModelled

text \<open>An expression that may raise, then the rest of the function; and a line printed
  before the rest of the function.\<close>

definition then_print ::
  "py_error + 'a \<Rightarrow> ('a \<Rightarrow> printed list \<times> outcome) \<Rightarrow> printed list \<times> outcome" where
  "then_print m f = (case m of Inl e \<Rightarrow> ([], Raised e) | Inr v \<Rightarrow> f v)"

definition emit :: "printed \<Rightarrow> printed list \<times> outcome \<Rightarrow> printed list \<times> outcome" where
  "emit line rest = (line # fst rest, snd rest)"

text \<open>The sort key of line 111, \<^verbatim>\<open>x['distance_to_taipei']['kilometers']\<close>.\<close>

definition distance_key :: "pyval \<Rightarrow> py_error + pyval" where
  "distance_key x =
     and_then (subscript x ''distance_to_taipei'') (\<lambda>d. subscript d ''kilometers'')"

fun as_number :: "pyval \<Rightarrow> real option" where
  "as_number (PNum x) = Some x"
| "as_number (PBool b) = Some (if b then 1 else 0)"
| "as_number _ = None"

fun is_str :: "pyval \<Rightarrow> bool" where
  "is_str (PStr s) = True"
| "is_str _ = False"

fun is_special :: "pyval \<Rightarrow> bool" where
  "is_special (PSpecial s) = True"
| "is_special _ = False"

text \<open>
  The keys are compared by \<^verbatim>\<open>sorted\<close> and formatted with \<^verbatim>\<open>.2f\<close>, which numbers
  (and booleans) allow. Keys that are all strings pass \<^verbatim>\<open>sorted\<close> and \<^verbatim>\<open>min\<close> and fail
  in the format of line 123 with \<^verbatim>\<open>ValueError\<close>; any other keys fail with \<^verbatim>\<open>TypeError\<close>,
  in the comparison or in that format. Either way no line of the model is printed before.
\<close>

definition numeric_keys :: "pyval list \<Rightarrow> py_error + real list" where
  "numeric_keys ks =
     (case those (map as_number ks) of
        Some ds \<Rightarrow> Inr ds
      | None \<Rightarrow> if list_all is_str ks then Inl ValueError else Inl TypeError)"

text \<open>A value under the format \<^verbatim>\<open>12s\<close> or \<^verbatim>\<open>5s\<close>, which only a string accepts; the
  padding is left out.\<close>

fun format_s :: "pyval \<Rightarrow> py_error + string" where
  "format_s (PStr s) = Inr s"
| "format_s (PNum x) = Inl ValueError"
| "format_s (PSpecial s) = Inl ValueError"
| "format_s (PBool b) = Inl ValueError"
| "format_s _ = Inl TypeError"

text \<open>One row, lines 130 to 135 and again 139 to 144; the row shows the station.\<close>

definition summary_row :: "pyval \<Rightarrow> py_error + pyval" where
  "summary_row station =
     and_then (subscript station ''distance_to_taipei'') (\<lambda>d.
     and_then (subscript d ''kilometers'') (\<lambda>distance.
     and_then (subscript station ''weather_elements'') (\<lambda>elements.
     and_then (dict_get elements ''temperature'' (PStr ''N/A'')) (\<lambda>temp.
     and_then (subscript station ''location'') (\<lambda>location.
     and_then (subscript location ''county'') (\<lambda>county.
     and_then (subscript station ''location'') (\<lambda>location.
     and_then (subscript location ''town'') (\<lambda>town.
     and_then (subscript station ''station_name'') (\<lambda>name.
     and_then (format_s name) (\<lambda>name_text.
     and_then (format_s temp) (\<lambda>temp_text.
       Inr station)))))))))))"

text \<open>A loop of rows, then the rest of the function.\<close>

fun print_rows ::
  "(pyval \<Rightarrow> printed) \<Rightarrow> pyval list \<Rightarrow> printed list \<times> outcome \<Rightarrow> printed list \<times> outcome"
  where
  "print_rows row [] rest = rest"
| "print_rows row (station # stations) rest =
     (case summary_row station of
        Inl e \<Rightarrow> ([], Raised e)
      | Inr shown \<Rightarrow> emit (row shown) (print_rows row stations rest))"

text \<open>
  With a stored distance that is NaN or infinite, what \<^verbatim>\<open>sorted\<close> returns depends on the
  comparisons that its algorithm makes. The model does not follow it and says so.
\<close>

definition print_distance_summary :: "pyval list \<Rightarrow> printed list \<times> outcome" where
  "print_distance_summary stations_with_distance =
     (if stations_with_distance = [] then ([NoDataLine], Returned)
      else
        then_print (collect distance_key stations_with_distance) (\<lambda>keys.
          if list_ex is_special keys then ([], NotModelled)
          else
        then_print (numeric_keys keys) (\<lambda>distances.
          let sorted_stations = map snd (sort_key fst (zip distances stations_with_distance))
          in
            then_print (py_min distances) (\<lambda>lowest.
            emit (MinLine lowest) (
            then_print (py_max distances) (\<lambda>highest.
            emit (MaxLine highest) (
            then_print (py_mean distances) (\<lambda>mean.
            emit (MeanLine mean) (
            then_print (py_index (sort distances) (length distances div 2)) (\<lambda>median.
            emit (MedianLine median) (
            print_rows NearestRow (take 10 sorted_stations) (
            print_rows FarthestRow
              (drop (length sorted_stations - 5) sorted_stations) (
            [], Returned)))))))))))))"

section \<open>weather\_api.py\<close>

subsection \<open>extract\_temperature\_data\<close>

text \<open>The loop of lines 85 to 89 over the coordinate entries; its result is the latitude
  and longitude that \<^verbatim>\<open>station_info['location']\<close> holds after it.\<close>

fun scan_coordinates :: "pyval \<Rightarrow> pyval list \<Rightarrow> py_error + pyval" where
  "scan_coordinates station_info [] = Inr station_info"
| "scan_coordinates station_info (coord # rest) =
     (case dict_get coord ''CoordinateName'' PNone of
        Inl e \<Rightarrow> Inl e
      | Inr name \<Rightarrow>
          if name = PStr ''WGS84'' then
            and_then (dict_get coord ''StationLatitude'' PNone) (\<lambda>lat.
            and_then (setitem2 station_info ''location'' ''latitude'' lat) (\<lambda>station_info.
            and_then (dict_get coord ''StationLongitude'' PNone) (\<lambda>lon.
              setitem2 station_info ''location'' ''longitude'' lon)))
          else scan_coordinates station_info rest)"

text \<open>The \<^verbatim>\<open>try\<close> body, lines 70 to 102, for one raw station.\<close>

definition extract_station :: "pyval \<Rightarrow> py_error + pyval" where
  "extract_station station =
     and_then (dict_get station ''StationId'' PNone) (\<lambda>station_id.
     and_then (dict_get station ''StationName'' (PStr [])) (\<lambda>station_name.
     and_then (dict_get station ''GeoInfo'' (PDict [])) (\<lambda>geo.
     and_then (dict_get geo ''CountyName'' (PStr [])) (\<lambda>county.
     and_then (dict_get station ''GeoInfo'' (PDict [])) (\<lambda>geo.
     and_then (dict_get geo ''TownName'' (PStr [])) (\<lambda>town.
     and_then (dict_get station ''ObsTime'' (PDict [])) (\<lambda>obs.
     and_then (dict_get obs ''DateTime'' (PStr [])) (\<lambda>observation_time.
       let station_info = PDict
             [(''station_id'', station_id),
              (''station_name'', station_name),
              (''location'', PDict
                 [(''county'', county),
                  (''town'', town),
                  (''latitude'', PNone),
                  (''longitude'', PNone)]),
              (''observation_time'', observation_time),
              (''weather_elements'', PDict [])]
       in
     and_then (dict_get station ''GeoInfo'' (PDict [])) (\<lambda>geo.
     and_then (dict_get geo ''Coordinates'' (PList [])) (\<lambda>coordinates.
     and_then (py_iter coordinates) (\<lambda>coords.
     and_then (scan_coordinates station_info coords) (\<lambda>station_info.
     and_then (dict_get station ''WeatherElement'' (PDict [])) (\<lambda>weather_elements.
     and_then (dict_get weather_elements ''AirTemperature'' PNone) (\<lambda>v.
     and_then (setitem2 station_info ''weather_elements'' ''temperature'' v) (\<lambda>station_info.
     and_then (dict_get weather_elements ''RelativeHumidity'' PNone) (\<lambda>v.
     and_then (setitem2 station_info ''weather_elements'' ''humidity'' v) (\<lambda>station_info.
     and_then (dict_get weather_elements ''AirPressure'' PNone) (\<lambda>v.
     and_then (setitem2 station_info ''weather_elements'' ''pressure'' v) (\<lambda>station_info.
     and_then (dict_get weather_elements ''WindSpeed'' PNone) (\<lambda>v.
     and_then (setitem2 station_info ''weather_elements'' ''wind_speed'' v) (\<lambda>station_info.
     and_then (dict_get weather_elements ''WindDirection'' PNone) (\<lambda>v.
     and_then (setitem2 station_info ''weather_elements'' ''wind_direction'' v) (\<lambda>station_info.
     and_then (dict_get weather_elements ''Weather'' PNone) (\<lambda>v.
     and_then (setitem2 station_info ''weather_elements'' ''weather'' v) (\<lambda>station_info.
     and_then (dict_get weather_elements ''Now'' (PDict [])) (\<lambda>now.
     and_then (dict_get now ''Precipitation'' PNone) (\<lambda>v.
       setitem2 station_info ''weather_elements'' ''precipitation'' v
     )))))))))))))))))))))))))))"

text \<open>The loop of lines 67 to 106. \<^verbatim>\<open>except Exception\<close> catches every exception of the
  body; the handler formats \<^verbatim>\<open>station.get('StationId', 'Unknown')\<close> into its message,
  and what that raises is not caught.\<close>

fun extract_loop :: "pyval list \<Rightarrow> pyval list \<Rightarrow> py_error + pyval list" where
  "extract_loop temperature_data [] = Inr temperature_data"
| "extract_loop temperature_data (station # rest) =
     (case extract_station station of
        Inr station_info \<Rightarrow> extract_loop (temperature_data @ [station_info]) rest
      | Inl e \<Rightarrow>
          (case dict_get station ''StationId'' (PStr ''Unknown'') of
             Inl e' \<Rightarrow> Inl e'
           | Inr shown \<Rightarrow> extract_loop temperature_data rest))"

definition extract_temperature_data :: "pyval \<Rightarrow> py_error + pyval list" where
  "extract_temperature_data weather_data =
     (if \<not> truthy weather_data then Inr []
      else
        and_then (dict_get weather_data ''records'' (PDict [])) (\<lambda>records.
        and_then (dict_get records ''Station'' (PList [])) (\<lambda>stations.
        and_then (py_iter stations) (\<lambda>entries.
          extract_loop [] entries))))"

subsection \<open>print\_temperature\_summary, lines 136 to 158\<close>

text \<open>The loop of lines 147 to 153: only \<^verbatim>\<open>ValueError\<close> of \<^verbatim>\<open>float\<close> is caught.\<close>

fun valid_temps_loop ::
  "(string \<Rightarrow> real option) \<Rightarrow> (real \<times> pyval) list \<Rightarrow> pyval list \<Rightarrow> py_error + (real \<times> pyval) list"
  where
  "valid_temps_loop pf valid_temps [] = Inr valid_temps"
| "valid_temps_loop pf valid_temps (d # rest) =
     (case and_then (subscript d ''weather_elements'')
             (\<lambda>elements. dict_get elements ''temperature'' PNone) of
        Inl e \<Rightarrow> Inl e
      | Inr temp \<Rightarrow>
          if truthy temp \<and> temp \<noteq> PStr ''-99'' then
            (case py_float pf temp of
               Inr t \<Rightarrow> valid_temps_loop pf (valid_temps @ [(t, d)]) rest
             | Inl e \<Rightarrow>
                 if e = ValueError then valid_temps_loop pf valid_temps rest else Inl e)
          else valid_temps_loop pf valid_temps rest)"

text \<open>What lines 157 and 158 read of a station for its label.\<close>

definition station_label :: "pyval \<Rightarrow> py_error + (pyval \<times> pyval \<times> pyval)" where
  "station_label station =
     and_then (subscript station ''station_name'') (\<lambda>name.
     and_then (subscript station ''location'') (\<lambda>location.
     and_then (subscript location ''county'') (\<lambda>county.
     and_then (subscript station ''location'') (\<lambda>location.
     and_then (subscript location ''town'') (\<lambda>town.
       Inr (name, county, town))))))"

text \<open>
  The highest and the lowest temperature that the function prints, each with its station:
  \<open>Inr None\<close> when it prints neither (no data, line 136, or no valid temperature,
  line 155).
\<close>

definition temperature_extremes ::
  "(string \<Rightarrow> real option) \<Rightarrow> pyval list
     \<Rightarrow> py_error + ((real \<times> pyval) \<times> (real \<times> pyval)) option" where
  "temperature_extremes pf temperature_data =
     (if temperature_data = [] then Inr None
      else
        and_then (valid_temps_loop pf [] temperature_data) (\<lambda>valid_temps.
          if valid_temps \<noteq> [] then
            (let valid_temps = sort_key fst valid_temps
             in and_then (station_label (snd (last valid_temps))) (\<lambda>label_high.
                and_then (station_label (snd (hd valid_temps))) (\<lambda>label_low.
                  Inr (Some (last valid_temps, hd valid_temps)))))
          else Inr None))"

section \<open>main.py, step 4 (lines 119 to 128)\<close>

record temperature_stats =
  valid_count :: nat
  average_temperature :: real
  highest_temperature :: real
  lowest_temperature :: real

text \<open>The condition of the comprehension of lines 119 to 121.\<close>

definition has_valid_temperature :: "pyval \<Rightarrow> py_error + bool" where
  "has_valid_temperature station =
     and_then (subscript station ''weather_elements'') (\<lambda>elements.
     and_then (dict_get elements ''temperature'' PNone) (\<lambda>temp.
       if truthy temp then
         and_then (subscript station ''weather_elements'') (\<lambda>elements.
         and_then (subscript elements ''temperature'') (\<lambda>temp.
           Inr (temp \<noteq> PStr ''-99'')))
       else Inr False))"

text \<open>The element of the comprehension of line 124.\<close>

definition temperature_of :: "(string \<Rightarrow> real option) \<Rightarrow> pyval \<Rightarrow> py_error + real" where
  "temperature_of pf s =
     and_then (subscript s ''weather_elements'') (\<lambda>elements.
     and_then (subscript elements ''temperature'') (\<lambda>temp.
       py_float pf temp))"

definition main_temperature_stats ::
  "(string \<Rightarrow> real option) \<Rightarrow> pyval list \<Rightarrow> py_error + temperature_stats option" where
  "main_temperature_stats pf weather_data =
     and_then (filter_raising has_valid_temperature weather_data) (\<lambda>valid_stations.
       if valid_stations \<noteq> [] then
         and_then (collect (temperature_of pf) valid_stations) (\<lambda>temps.
         and_then (py_mean temps) (\<lambda>mean.
         and_then (py_max temps) (\<lambda>highest.
         and_then (py_min temps) (\<lambda>lowest.
           Inr (Some
             \<lparr>valid_count = length valid_stations,
              average_temperature = mean,
              highest_temperature = highest,
              lowest_temperature = lowest\<rparr>)))))
       else Inr None)"

section \<open>Notions of the specification\<close>

text \<open>The great-circle distance of section 4.2, in kilometres, between two points given
  in decimal degrees.\<close>

definition great_circle :: "real \<Rightarrow> real \<Rightarrow> real \<Rightarrow> real \<Rightarrow> real" where
  "great_circle lat1 lon1 lat2 lon2 =
     6371 * (2 * arcsin (sqrt (
        (sin ((lat2 * (pi / 180) - lat1 * (pi / 180)) / 2))\<^sup>2
        + cos (lat1 * (pi / 180)) * cos (lat2 * (pi / 180))
          * (sin ((lon2 * (pi / 180) - lon1 * (pi / 180)) / 2))\<^sup>2)))"

text \<open>The value bound to a key, for a dictionary that has it.\<close>

fun lookup :: "pyval \<Rightarrow> string \<Rightarrow> pyval option" where
  "lookup (PDict kvs) k = map_of kvs k"
| "lookup _ k = None"

text \<open>The distance that a station-with-distance record stores.\<close>

definition kilometers :: "pyval \<Rightarrow> real" where
  "kilometers s =
     (case lookup s ''distance_to_taipei'' of
        Some d \<Rightarrow> (case lookup d ''kilometers'' of Some (PNum x) \<Rightarrow> x | _ \<Rightarrow> 0)
      | None \<Rightarrow> 0)"

text \<open>A station-with-distance record: its stored distance is a number.\<close>

definition stores_distance :: "pyval \<Rightarrow> bool" where
  "stores_distance s \<longleftrightarrow>
     (case lookup s ''distance_to_taipei'' of
        Some d \<Rightarrow> (case lookup d ''kilometers'' of Some (PNum x) \<Rightarrow> True | _ \<Rightarrow> False)
      | None \<Rightarrow> False)"

text \<open>
  A record whose row the summary can print: besides the stored distance, a name that is a
  string, a county and a town, and weather elements whose temperature is a string or is
  missing.
\<close>

definition printable_row :: "pyval \<Rightarrow> bool" where
  "printable_row s \<longleftrightarrow>
     stores_distance s \<and>
     (case lookup s ''weather_elements'' of
        Some (PDict elements) \<Rightarrow>
          (case map_of elements ''temperature'' of None \<Rightarrow> True | Some t \<Rightarrow> is_str t)
      | _ \<Rightarrow> False) \<and>
     (case lookup s ''location'' of
        Some location \<Rightarrow>
          lookup location ''county'' \<noteq> None \<and> lookup location ''town'' \<noteq> None
      | None \<Rightarrow> False) \<and>
     (case lookup s ''station_name'' of Some name \<Rightarrow> is_str name | None \<Rightarrow> False)"

text \<open>The statistics that the summary prints for a list of distances.\<close>

definition statistics :: "real list \<Rightarrow> printed list" where
  "statistics ds =
     [MinLine (Min (set ds)),
      MaxLine (Max (set ds)),
      MeanLine (sum_list ds / real (length ds)),
      MedianLine (sort ds ! (length ds div 2))]"

text \<open>A well-formed record with a given name and stored distance, for the examples.\<close>

definition sample_record :: "string \<Rightarrow> real \<Rightarrow> pyval" where
  "sample_record name km =
     PDict
       [(''station_id'', PStr ''466920''),
        (''station_name'', PStr name),
        (''location'', PDict
           [(''county'', PStr ''Taipei''),
            (''town'', PStr ''Zhongzheng''),
            (''latitude'', PStr ''25.0377''),
            (''longitude'', PStr ''121.5149'')]),
        (''observation_time'', PStr ''2025-01-01T12:00:00+08:00''),
        (''weather_elements'', PDict [(''temperature'', PStr ''21.5'')]),
        (''distance_to_taipei'', PDict
           [(''kilometers'', PNum km),
            (''taipei_station_coords'', PDict
               [(''latitude'', PNum (250478 / 10000)),
                (''longitude'', PNum (121517 / 1000))])])]"

text \<open>A record as the pipeline gives it for a station without \<^verbatim>\<open>AirTemperature\<close>: the
  key \<^verbatim>\<open>temperature\<close> is there and its value is \<^verbatim>\<open>None\<close>.\<close>

definition unread_record :: "string \<Rightarrow> real \<Rightarrow> pyval" where
  "unread_record name km =
     PDict
       [(''station_id'', PStr ''C0A520''),
        (''station_name'', PStr name),
        (''location'', PDict
           [(''county'', PStr ''New Taipei''),
            (''town'', PStr ''Shulin''),
            (''latitude'', PStr ''24.9749''),
            (''longitude'', PStr ''121.4015'')]),
        (''observation_time'', PStr ''2025-01-01T12:00:00+08:00''),
        (''weather_elements'', PDict
           [(''temperature'', PNone),
            (''humidity'', PNone),
            (''pressure'', PNone),
            (''wind_speed'', PNone),
            (''wind_direction'', PNone),
            (''weather'', PNone),
            (''precipitation'', PNone)]),
        (''distance_to_taipei'', PDict
           [(''kilometers'', PNum km),
            (''taipei_station_coords'', PDict
               [(''latitude'', PNum (250478 / 10000)),
                (''longitude'', PNum (121517 / 1000))])])]"

text \<open>The value of a key, or a default where the key is absent (or the object is not a
  dictionary).\<close>

definition get_or :: "pyval \<Rightarrow> string \<Rightarrow> pyval \<Rightarrow> pyval" where
  "get_or d k dflt = (case lookup d k of None \<Rightarrow> dflt | Some v \<Rightarrow> v)"

fun is_dict :: "pyval \<Rightarrow> bool" where
  "is_dict (PDict kvs) = True"
| "is_dict _ = False"

text \<open>The list under a key, empty where there is none.\<close>

definition list_under :: "pyval \<Rightarrow> string \<Rightarrow> pyval list" where
  "list_under d k = (case lookup d k of Some (PList xs) \<Rightarrow> xs | _ \<Rightarrow> [])"

text \<open>The raw station entries of a document, and the coordinate entries of a raw station.\<close>

definition document_stations :: "pyval \<Rightarrow> pyval list" where
  "document_stations doc = list_under (get_or doc ''records'' (PDict [])) ''Station''"

definition raw_coordinates :: "pyval \<Rightarrow> pyval list" where
  "raw_coordinates raw = list_under (get_or raw ''GeoInfo'' (PDict [])) ''Coordinates''"

text \<open>A coordinate entry whose coordinate-system tag equals \<^verbatim>\<open>"WGS84"\<close>.\<close>

definition is_wgs84 :: "pyval \<Rightarrow> bool" where
  "is_wgs84 c \<longleftrightarrow> lookup c ''CoordinateName'' = Some (PStr ''WGS84'')"

text \<open>The first coordinate entry tagged WGS84, if there is one.\<close>

definition first_wgs84 :: "pyval \<Rightarrow> pyval option" where
  "first_wgs84 raw = find is_wgs84 (raw_coordinates raw)"

text \<open>A station record with the fixed schema of the specification.\<close>

definition station_record ::
  "pyval \<Rightarrow> pyval \<Rightarrow> pyval \<Rightarrow> pyval \<Rightarrow> pyval \<Rightarrow> pyval \<Rightarrow> pyval \<Rightarrow> (string \<times> pyval) list \<Rightarrow> pyval"
  where
  "station_record station_id station_name county town latitude longitude observation_time
       elements =
     PDict
       [(''station_id'', station_id),
        (''station_name'', station_name),
        (''location'', PDict
           [(''county'', county),
            (''town'', town),
            (''latitude'', latitude),
            (''longitude'', longitude)]),
        (''observation_time'', observation_time),
        (''weather_elements'', PDict elements)]"

text \<open>
  The record that section 4.1 of the specification describes for a raw station: identifier
  and name, county and town, the coordinates of the first WGS84 entry, the observation time
  and the seven weather elements, each with its default where the raw entry lacks it.
\<close>

definition normalized_station :: "pyval \<Rightarrow> pyval" where
  "normalized_station raw =
     (let geo = get_or raw ''GeoInfo'' (PDict []);
          obs = get_or raw ''ObsTime'' (PDict []);
          elements = get_or raw ''WeatherElement'' (PDict []);
          now = get_or elements ''Now'' (PDict [])
      in station_record
           (get_or raw ''StationId'' PNone)
           (get_or raw ''StationName'' (PStr []))
           (get_or geo ''CountyName'' (PStr []))
           (get_or geo ''TownName'' (PStr []))
           (case first_wgs84 raw of
              None \<Rightarrow> PNone | Some c \<Rightarrow> get_or c ''StationLatitude'' PNone)
           (case first_wgs84 raw of
              None \<Rightarrow> PNone | Some c \<Rightarrow> get_or c ''StationLongitude'' PNone)
           (get_or obs ''DateTime'' (PStr []))
           [(''temperature'', get_or elements ''AirTemperature'' PNone),
            (''humidity'', get_or elements ''RelativeHumidity'' PNone),
            (''pressure'', get_or elements ''AirPressure'' PNone),
            (''wind_speed'', get_or elements ''WindSpeed'' PNone),
            (''wind_direction'', get_or elements ''WindDirection'' PNone),
            (''weather'', get_or elements ''Weather'' PNone),
            (''precipitation'', get_or now ''Precipitation'' PNone)])"

text \<open>The coordinate entries that the scan reads are dictionaries: every entry up to and
  including the first one tagged WGS84.\<close>

fun coordinates_readable :: "pyval list \<Rightarrow> bool" where
  "coordinates_readable [] = True"
| "coordinates_readable (c # cs) = (is_dict c \<and> (is_wgs84 c \<or> coordinates_readable cs))"

text \<open>A raw station whose parts have the types that the normalizer reads them with.\<close>

definition extractable :: "pyval \<Rightarrow> bool" where
  "extractable raw \<longleftrightarrow>
     is_dict raw
     \<and> is_dict (get_or raw ''GeoInfo'' (PDict []))
     \<and> is_dict (get_or raw ''ObsTime'' (PDict []))
     \<and> (case py_iter (get_or (get_or raw ''GeoInfo'' (PDict [])) ''Coordinates'' (PList [])) of
          Inl e \<Rightarrow> False | Inr coords \<Rightarrow> coordinates_readable coords)
     \<and> is_dict (get_or raw ''WeatherElement'' (PDict []))
     \<and> is_dict (get_or (get_or raw ''WeatherElement'' (PDict [])) ''Now'' (PDict []))"

text \<open>A field of a dictionary held under a key of a record.\<close>

definition field2 :: "pyval \<Rightarrow> string \<Rightarrow> string \<Rightarrow> pyval option" where
  "field2 r k1 k2 = (case lookup r k1 of None \<Rightarrow> None | Some d \<Rightarrow> lookup d k2)"

text \<open>A raw station as the API sends it, with a TWD67 entry before two WGS84 entries.\<close>

definition sample_raw_station :: pyval where
  "sample_raw_station =
     PDict
       [(''StationName'', PStr ''Taipei''),
        (''StationId'', PStr ''466920''),
        (''ObsTime'', PDict [(''DateTime'', PStr ''2025-01-01T12:00:00+08:00'')]),
        (''GeoInfo'', PDict
           [(''Coordinates'', PList
               [PDict [(''CoordinateName'', PStr ''TWD67''),
                       (''StationLatitude'', PStr ''25.0394''),
                       (''StationLongitude'', PStr ''121.5067'')],
                PDict [(''CoordinateName'', PStr ''WGS84''),
                       (''StationLatitude'', PStr ''25.0377''),
                       (''StationLongitude'', PStr ''121.5149'')],
                PDict [(''CoordinateName'', PStr ''WGS84''),
                       (''StationLatitude'', PStr ''0''),
                       (''StationLongitude'', PStr ''0'')]]),
            (''CountyName'', PStr ''Taipei''),
            (''TownName'', PStr ''Zhongzheng'')]),
        (''WeatherElement'', PDict
           [(''Weather'', PStr ''cloudy''),
            (''Now'', PDict [(''Precipitation'', PStr ''0.0'')]),
            (''WindDirection'', PStr ''70''),
            (''WindSpeed'', PStr ''3.1''),
            (''AirTemperature'', PStr ''21.5''),
            (''RelativeHumidity'', PStr ''78''),
            (''AirPressure'', PStr ''1012.3'')])]"

text \<open>The record of that station.\<close>

definition sample_station :: pyval where
  "sample_station =
     station_record (PStr ''466920'') (PStr ''Taipei'') (PStr ''Taipei'') (PStr ''Zhongzheng'')
       (PStr ''25.0377'') (PStr ''121.5149'') (PStr ''2025-01-01T12:00:00+08:00'')
       [(''temperature'', PStr ''21.5''),
        (''humidity'', PStr ''78''),
        (''pressure'', PStr ''1012.3''),
        (''wind_speed'', PStr ''3.1''),
        (''wind_direction'', PStr ''70''),
        (''weather'', PStr ''cloudy''),
        (''precipitation'', PStr ''0.0'')]"

text \<open>A document with the given raw station entries.\<close>

definition document :: "pyval list \<Rightarrow> pyval" where
  "document entries =
     PDict [(''success'', PStr ''true''), (''records'', PDict [(''Station'', PList entries)])]"

text \<open>
  The coordinates of a record are those of the first WGS84 entry of the raw station, and
  are unset where the raw station has no such entry.
\<close>

definition takes_first_wgs84 :: "pyval \<Rightarrow> pyval \<Rightarrow> bool" where
  "takes_first_wgs84 raw r \<longleftrightarrow>
     (case first_wgs84 raw of
        None \<Rightarrow>
          field2 r ''location'' ''latitude'' = Some PNone
          \<and> field2 r ''location'' ''longitude'' = Some PNone
      | Some c \<Rightarrow>
          field2 r ''location'' ''latitude'' = Some (get_or c ''StationLatitude'' PNone)
          \<and> field2 r ''location'' ''longitude'' = Some (get_or c ''StationLongitude'' PNone))"

text \<open>
  A record has the fixed schema, and its name, county, town and observation time are the
  raw values, or the empty string where the raw station has none.
\<close>

definition has_schema :: "pyval \<Rightarrow> pyval \<Rightarrow> bool" where
  "has_schema raw r \<longleftrightarrow>
     (\<exists>station_id latitude longitude temperature humidity pressure wind_speed wind_direction
         weather precipitation.
        r = station_record station_id
              (get_or raw ''StationName'' (PStr []))
              (get_or (get_or raw ''GeoInfo'' (PDict [])) ''CountyName'' (PStr []))
              (get_or (get_or raw ''GeoInfo'' (PDict [])) ''TownName'' (PStr []))
              latitude longitude
              (get_or (get_or raw ''ObsTime'' (PDict [])) ''DateTime'' (PStr []))
              [(''temperature'', temperature),
               (''humidity'', humidity),
               (''pressure'', pressure),
               (''wind_speed'', wind_speed),
               (''wind_direction'', wind_direction),
               (''weather'', weather),
               (''precipitation'', precipitation)])"

text \<open>The record of a raw station that has no field at all.\<close>

definition blank_station :: pyval where
  "blank_station =
     station_record PNone (PStr []) (PStr []) (PStr []) PNone PNone (PStr [])
       [(''temperature'', PNone),
        (''humidity'', PNone),
        (''pressure'', PNone),
        (''wind_speed'', PNone),
        (''wind_direction'', PNone),
        (''weather'', PNone),
        (''precipitation'', PNone)]"

text \<open>The name, county, town and observation time of a record are all strings.\<close>

definition string_fields :: "pyval \<Rightarrow> bool" where
  "string_fields r \<longleftrightarrow>
     (case lookup r ''station_name'' of Some v \<Rightarrow> is_str v | None \<Rightarrow> False)
     \<and> (case field2 r ''location'' ''county'' of Some v \<Rightarrow> is_str v | None \<Rightarrow> False)
     \<and> (case field2 r ''location'' ''town'' of Some v \<Rightarrow> is_str v | None \<Rightarrow> False)
     \<and> (case lookup r ''observation_time'' of Some v \<Rightarrow> is_str v | None \<Rightarrow> False)"

text \<open>A coordinate that is present and is a string that parses as a float.\<close>

definition parsed :: "(string \<Rightarrow> pyfloat option) \<Rightarrow> pyval option \<Rightarrow> pyfloat option" where
  "parsed pf v = (case v of Some (PStr s) \<Rightarrow> pf s | _ \<Rightarrow> None)"

text \<open>The latitude and longitude of a station, where both are present and parse.\<close>

definition coordinates :: "(string \<Rightarrow> pyfloat option) \<Rightarrow> pyval \<Rightarrow> (pyfloat \<times> pyfloat) option"
  where
  "coordinates pf s =
     (case parsed pf (field2 s ''location'' ''latitude'') of
        None \<Rightarrow> None
      | Some lat \<Rightarrow>
          (case parsed pf (field2 s ''location'' ''longitude'') of
             None \<Rightarrow> None
           | Some lon \<Rightarrow> Some (lat, lon)))"






text \<open>The annotation of a station with a stored distance.\<close>

definition distance_info :: "real \<Rightarrow> real \<Rightarrow> pyval \<Rightarrow> pyval" where
  "distance_info taipei_lat taipei_lon stored =
     PDict
       [(''kilometers'', stored),
        (''taipei_station_coords'',
           PDict [(''latitude'', PNum taipei_lat), (''longitude'', PNum taipei_lon)])]"



text \<open>Python's \<^verbatim>\<open>float\<close> on the coordinate strings of the examples.\<close>

definition sample_parse :: "string \<Rightarrow> pyfloat option" where
  "sample_parse =
     map_of
       [(''25.0377'', Fin (250377 / 10000)),
        (''121.5149'', Fin (1215149 / 10000)),
        (''nan'', Special NaN),
        (''inf'', Special PosInf)]"




text \<open>Python's \<^verbatim>\<open>float\<close> on the temperature strings of the examples.\<close>

definition sample_float :: "string \<Rightarrow> real option" where
  "sample_float =
     map_of
       [(''25.0377'', 250377 / 10000),
        (''121.5149'', 1215149 / 10000),
        (''18.0'', 18),
        (''21.5'', 215 / 10),
        (''30.5'', 305 / 10),
        (''-99'', - 99)]"

text \<open>A station whose latitude does not parse.\<close>

definition unparsable_station :: pyval where
  "unparsable_station =
     station_record (PStr ''C0A520'') (PStr ''Shanjia'') (PStr ''New Taipei'') (PStr ''Shulin'')
       (PStr ''abc'') (PStr ''121.5149'') (PStr ''2025-01-01T12:00:00+08:00'')
       [(''temperature'', PStr ''-99'')]"

text \<open>A station whose temperature is the sentinel string \<^verbatim>\<open>"-99"\<close>.\<close>

definition is_sentinel :: "pyval \<Rightarrow> bool" where
  "is_sentinel s \<longleftrightarrow> field2 s ''weather_elements'' ''temperature'' = Some (PStr ''-99'')"

text \<open>A third station for the fixture of three, one of which holds the sentinel.\<close>

definition warm_station :: pyval where
  "warm_station =
     station_record (PStr ''467410'') (PStr ''Tainan'') (PStr ''Tainan'') (PStr ''West Central'')
       (PStr ''22.9932'') (PStr ''120.2047'') (PStr ''2025-01-01T12:00:00+08:00'')
       [(''temperature'', PStr ''30.5'')]"

section \<open>The haversine formula\<close>

lemma and_then_Inr [simp]: "and_then (Inr v) f = f v"
  by (simp add: and_then_def)

lemma and_then_Inl [simp]: "and_then (Inl e) f = Inl e"
  by (simp add: and_then_def)

lemma sin_half_squared: "(sin (x / 2))\<^sup>2 = (1 - cos x) / (2::real)"
proof -
  have "cos x = cos (2 * (x / 2))" by simp
  also have "\<dots> = 1 - 2 * (sin (x / 2))\<^sup>2" by (rule cos_double_sin)
  finally show ?thesis by simp
qed

lemma haversine_term_eq:
  fixes p q e :: real
  shows "(sin ((q - p) / 2))\<^sup>2 + cos p * cos q * (sin (e / 2))\<^sup>2
         = (1 - (sin p * sin q + cos p * cos q * cos e)) / 2"
  by (simp add: sin_half_squared cos_diff field_simps)

lemma one_plus_cos_nonneg: "0 \<le> 1 + cos (x::real)"
  using cos_ge_minus_one [of x] by linarith

lemma one_minus_cos_nonneg: "0 \<le> 1 - cos (x::real)"
  using cos_le_one [of x] by linarith

lemma haversine_term_lower:
  fixes p q e :: real
  shows "0 \<le> (sin ((q - p) / 2))\<^sup>2 + cos p * cos q * (sin (e / 2))\<^sup>2"
proof -
  have "1 - (sin p * sin q + cos p * cos q * cos e)
        = (1 + cos e) / 2 * (1 - cos (p - q)) + (1 - cos e) / 2 * (1 + cos (p + q))"
    by (simp add: cos_diff cos_add field_simps)
  moreover have "0 \<le> (1 + cos e) / 2 * (1 - cos (p - q))"
    using one_plus_cos_nonneg [of e] one_minus_cos_nonneg [of "p - q"]
    by (intro mult_nonneg_nonneg) simp_all
  moreover have "0 \<le> (1 - cos e) / 2 * (1 + cos (p + q))"
    using one_minus_cos_nonneg [of e] one_plus_cos_nonneg [of "p + q"]
    by (intro mult_nonneg_nonneg) simp_all
  ultimately have "0 \<le> 1 - (sin p * sin q + cos p * cos q * cos e)" by linarith
  then show ?thesis by (simp add: haversine_term_eq)
qed

lemma haversine_term_upper:
  fixes p q e :: real
  shows "(sin ((q - p) / 2))\<^sup>2 + cos p * cos q * (sin (e / 2))\<^sup>2 \<le> 1"
proof -
  have "1 + (sin p * sin q + cos p * cos q * cos e)
        = (1 + cos e) / 2 * (1 + cos (p - q)) + (1 - cos e) / 2 * (1 - cos (p + q))"
    by (simp add: cos_diff cos_add field_simps)
  moreover have "0 \<le> (1 + cos e) / 2 * (1 + cos (p - q))"
    using one_plus_cos_nonneg [of e] one_plus_cos_nonneg [of "p - q"]
    by (intro mult_nonneg_nonneg) simp_all
  moreover have "0 \<le> (1 - cos e) / 2 * (1 - cos (p + q))"
    using one_minus_cos_nonneg [of e] one_minus_cos_nonneg [of "p + q"]
    by (intro mult_nonneg_nonneg) simp_all
  ultimately have "0 \<le> 1 + (sin p * sin q + cos p * cos q * cos e)" by linarith
  then show ?thesis by (simp add: haversine_term_eq)
qed

lemma haversine_distance_value:
  "haversine_distance lat1 lon1 lat2 lon2 = Inr (great_circle lat1 lon1 lat2 lon2)"
proof -
  let ?a = "(sin ((radians lat2 - radians lat1) / 2))\<^sup>2
            + cos (radians lat1) * cos (radians lat2)
              * (sin ((radians lon2 - radians lon1) / 2))\<^sup>2"
  have lo: "0 \<le> ?a" by (rule haversine_term_lower)
  have hi: "?a \<le> 1" by (rule haversine_term_upper)
  have dom_sqrt: "\<not> ?a < 0" using lo by simp
  have "0 \<le> sqrt ?a" using lo by simp
  moreover have "sqrt ?a \<le> 1" using hi by simp
  ultimately have dom_asin: "\<not> (sqrt ?a < - 1 \<or> 1 < sqrt ?a)" by linarith
  have "haversine_distance lat1 lon1 lat2 lon2 = Inr (2 * arcsin (sqrt ?a) * 6371)"
    unfolding haversine_distance_def Let_def py_sqrt_def py_asin_def
    by (simp only: dom_sqrt dom_asin if_False and_then_Inr)
  then show ?thesis by (simp add: radians_def great_circle_def mult.commute)
qed


lemma great_circle_same_point [simp]: "great_circle lat lon lat lon = 0"
  by (simp add: great_circle_def)



section \<open>The distance summary\<close>

lemma then_print_Inr [simp]: "then_print (Inr v) f = f v"
  by (simp add: then_print_def)

lemma then_print_Inl [simp]: "then_print (Inl e) f = ([], Raised e)"
  by (simp add: then_print_def)

lemma emit_pair [simp]: "emit line (lines, out) = (line # lines, out)"
  by (simp add: emit_def)

lemma py_min_Min: "xs \<noteq> [] \<Longrightarrow> py_min xs = Inr (Min (set xs))"
proof (cases xs)
  case Nil
  assume "xs \<noteq> []"
  with Nil show ?thesis by simp
next
  case (Cons x ys)
  have "(\<lambda>(y::real) m. if y < m then y else m) = min"
    by (intro ext) (simp add: min_def)
  then show ?thesis using Cons Min.set_eq_fold [of x ys] by simp
qed

lemma py_max_Max: "xs \<noteq> [] \<Longrightarrow> py_max xs = Inr (Max (set xs))"
proof (cases xs)
  case Nil
  assume "xs \<noteq> []"
  with Nil show ?thesis by simp
next
  case (Cons x ys)
  have "(\<lambda>(y::real) m. if m < y then y else m) = max"
    by (intro ext) (simp add: max_def)
  then show ?thesis using Cons Max.set_eq_fold [of x ys] by simp
qed

lemma fold_add_sum_list: "fold (\<lambda>x s. s + x) xs (a::real) = a + sum_list xs"
  by (induction xs arbitrary: a) simp_all

lemma py_mean_eq: "xs \<noteq> [] \<Longrightarrow> py_mean xs = Inr (sum_list xs / real (length xs))"
  by (simp add: py_mean_def py_sum_def fold_add_sum_list)

lemma py_index_median:
  "xs \<noteq> [] \<Longrightarrow> py_index (sort xs) (length xs div 2) = Inr (sort xs ! (length xs div 2))"
  by (simp add: py_index_def)

lemma collect_all_Inr:
  "(\<And>x. x \<in> set xs \<Longrightarrow> f x = Inr (g x)) \<Longrightarrow> collect f xs = Inr (map g xs)"
  by (induction xs) simp_all

lemma sort_key_zip: "map snd (sort_key fst (zip (map f xs) xs)) = sort_key f xs"
proof -
  have "sort_key fst (zip (map f xs) xs) = map (\<lambda>x. (f x, x)) (sort_key f xs)"
  proof (induction xs)
    case Nil
    then show ?case by simp
  next
    case (Cons a xs)
    have ins: "insort_key fst (f a, a) (map (\<lambda>x. (f x, x)) ys)
               = map (\<lambda>x. (f x, x)) (insort_key f a ys)" for ys
      by (induction ys) simp_all
    show ?case using Cons by (simp add: ins)
  qed
  then show ?thesis by (simp add: comp_def)
qed

lemma subscript_lookup: "lookup d k = Some v \<Longrightarrow> subscript d k = Inr v"
  by (cases d) simp_all

lemma format_s_str: "is_str t \<Longrightarrow> format_s t = Inr (case t of PStr s \<Rightarrow> s | _ \<Rightarrow> [])"
  by (cases t) simp_all

lemma stored_distance_key: "stores_distance s \<Longrightarrow> distance_key s = Inr (PNum (kilometers s))"
  by (cases s)
    (auto simp: stores_distance_def distance_key_def kilometers_def subscript_lookup
          split: option.splits pyval.splits)

lemma printable_row_shown: "printable_row s \<Longrightarrow> summary_row s = Inr s"
  by (cases s)
    (auto simp: printable_row_def stores_distance_def summary_row_def subscript_lookup
          format_s_str split: option.splits pyval.splits)

lemma numeric_keys_numbers: "numeric_keys (map (\<lambda>s. PNum (f s)) xs) = Inr (map f xs)"
proof -
  have "those (map as_number (map (\<lambda>s. PNum (f s)) xs)) = Some (map f xs)"
    by (induction xs) simp_all
  then show ?thesis by (simp add: numeric_keys_def)
qed

lemma print_rows_printable:
  "list_all printable_row rows \<Longrightarrow>
     print_rows row rows rest = (map row rows @ fst rest, snd rest)"
  by (induction rows) (simp_all add: printable_row_shown emit_def)

lemma print_distance_summary_statistics:
  assumes nonempty: "stations \<noteq> []" and records: "list_all stores_distance stations"
  shows "print_distance_summary stations =
           (statistics (map kilometers stations)
              @ fst (print_rows NearestRow (take 10 (sort_key kilometers stations))
                      (print_rows FarthestRow
                         (drop (length stations - 5) (sort_key kilometers stations))
                         ([], Returned))),
            snd (print_rows NearestRow (take 10 (sort_key kilometers stations))
                   (print_rows FarthestRow
                      (drop (length stations - 5) (sort_key kilometers stations))
                      ([], Returned))))"
proof -
  let ?ds = "map kilometers stations"
  have keys: "collect distance_key stations = Inr (map (\<lambda>s. PNum (kilometers s)) stations)"
    using records by (intro collect_all_Inr stored_distance_key) (simp add: list_all_iff)
  have finite: "\<not> list_ex is_special (map (\<lambda>s. PNum (kilometers s)) stations)"
    by (simp add: list_ex_iff)
  have numbers: "numeric_keys (map (\<lambda>s. PNum (kilometers s)) stations) = Inr ?ds"
    by (rule numeric_keys_numbers)
  have ds: "?ds \<noteq> []" using nonempty by simp
  have lowest: "py_min ?ds = Inr (Min (set ?ds))" using ds by (rule py_min_Min)
  have highest: "py_max ?ds = Inr (Max (set ?ds))" using ds by (rule py_max_Max)
  have mean: "py_mean ?ds = Inr (sum_list ?ds / real (length ?ds))"
    using ds by (rule py_mean_eq)
  have median: "py_index (sort ?ds) (length ?ds div 2) = Inr (sort ?ds ! (length ?ds div 2))"
    using ds by (rule py_index_median)
  have len: "length (sort_key kilometers stations) = length stations" by simp
  show ?thesis
    unfolding print_distance_summary_def Let_def
    using nonempty
    by (simp only: keys finite numbers lowest highest mean median sort_key_zip len
          then_print_Inr if_False emit_def statistics_def fst_conv snd_conv append.simps)
qed

lemma print_distance_summary_printable:
  assumes "stations \<noteq> []" and "list_all printable_row stations"
  shows "print_distance_summary stations =
           (statistics (map kilometers stations)
              @ map NearestRow (take 10 (sort_key kilometers stations))
              @ map FarthestRow (drop (length stations - 5) (sort_key kilometers stations)),
            Returned)"
proof -
  have stored: "list_all stores_distance stations"
    using assms(2) by (simp add: list_all_iff printable_row_def)
  have "set (take 10 (sort_key kilometers stations)) \<subseteq> set stations"
    using set_take_subset [of 10 "sort_key kilometers stations"] by simp
  then have first10: "list_all printable_row (take 10 (sort_key kilometers stations))"
    using assms(2) by (auto simp: list_all_iff)
  have "set (drop (length stations - 5) (sort_key kilometers stations)) \<subseteq> set stations"
    using set_drop_subset [of "length stations - 5" "sort_key kilometers stations"] by simp
  then have last5:
    "list_all printable_row (drop (length stations - 5) (sort_key kilometers stations))"
    using assms(2) by (auto simp: list_all_iff)
  show ?thesis
    unfolding print_distance_summary_statistics [OF assms(1) stored]
    by (simp add: print_rows_printable [OF first10] print_rows_printable [OF last5])
qed

lemma sample_record_stored: "stores_distance (sample_record name km)"
  by (simp add: sample_record_def stores_distance_def)

lemma sample_record_ok: "printable_row (sample_record name km)"
  by (simp add: sample_record_def printable_row_def stores_distance_def)

lemma sample_record_km: "kilometers (sample_record name km) = km"
  by (simp add: sample_record_def kilometers_def)

lemma unread_record_stored: "stores_distance (unread_record name km)"
  by (simp add: unread_record_def stores_distance_def)

lemma unread_record_km: "kilometers (unread_record name km) = km"
  by (simp add: unread_record_def kilometers_def)

lemma unread_record_row: "summary_row (unread_record name km) = Inl TypeError"
  by (simp add: unread_record_def summary_row_def)

lemma sample_record_row: "summary_row (sample_record name km) = Inr (sample_record name km)"
  by (rule printable_row_shown) (rule sample_record_ok)

text \<open>
  C1, as the code has it. With an empty sequence \<open>print_distance_summary\<close> raises no
  error: it prints its no-data message and returns, with no statistics.
\<close>

theorem print_distance_summary_empty:
  "print_distance_summary [] = ([NoDataLine], Returned)"
  by (simp add: print_distance_summary_def)

text \<open>C1 as stated fails: the call with the empty sequence ends without an exception.\<close>

theorem print_distance_summary_empty_raises_nothing:
  "snd (print_distance_summary []) = Returned"
  by (simp add: print_distance_summary_def)

text \<open>
  C2. For a non-empty sequence of station-with-distance records the summary prints the
  minimum, the maximum and the arithmetic mean of the stored distances, and as median the
  element at index \<open>n div 2\<close> of the distances sorted ascending; it prints them whatever
  the rows after them do.
\<close>

theorem summary_statistics:
  assumes "stations \<noteq> []" and "list_all stores_distance stations"
  shows "\<exists>rows ending.
           print_distance_summary stations =
             ([MinLine (Min (set (map kilometers stations))),
               MaxLine (Max (set (map kilometers stations))),
               MeanLine (sum_list (map kilometers stations) / real (length stations)),
               MedianLine (sort (map kilometers stations) ! (length stations div 2))]
              @ rows, ending)"
  using print_distance_summary_statistics [OF assms] by (simp add: statistics_def)

theorem summary_statistics_witness:
  "\<exists>rows ending.
     print_distance_summary
       [unread_record ''A'' 3, sample_record ''B'' 1, sample_record ''C'' 4,
        sample_record ''D'' 2]
     = ([MinLine 1, MaxLine 4, MeanLine (5 / 2), MedianLine 3] @ rows, ending)"
  using summary_statistics
    [of "[unread_record ''A'' 3, sample_record ''B'' 1, sample_record ''C'' 4,
          sample_record ''D'' 2]"]
  by (simp add: sample_record_stored sample_record_km unread_record_stored unread_record_km)

text \<open>
  C3, at a record whose temperature is \<^verbatim>\<open>None\<close>, as the pipeline gives it for a station
  without \<^verbatim>\<open>AirTemperature\<close>: the row of that record raises \<^verbatim>\<open>TypeError\<close> in its format.
  Of two records the nearer gets its row, the other none, and the list of the farthest is
  never printed.
\<close>

theorem unread_temperature_stops_rows:
  "print_distance_summary [unread_record ''A'' 3, sample_record ''B'' 1]
     = ([MinLine 1, MaxLine 3, MeanLine 2, MedianLine 3,
         NearestRow (sample_record ''B'' 1)],
        Raised TypeError)"
proof -
  have stored: "list_all stores_distance [unread_record ''A'' 3, sample_record ''B'' 1]"
    by (simp add: sample_record_stored unread_record_stored)
  show ?thesis
    unfolding print_distance_summary_statistics [OF _ stored, simplified]
    by (simp add: statistics_def sample_record_km unread_record_km sample_record_row
          unread_record_row)
qed

text \<open>What holds of C3: where every row can be printed, the nearest rows are the first 10
  records of the sequence sorted ascending by distance and the farthest rows the last 5 of
  that same sort, still ascending, all of them where there are fewer.\<close>

lemma summary_nearest_farthest:
  assumes "stations \<noteq> []" and "list_all printable_row stations"
  shows "\<exists>first10 last5.
           print_distance_summary stations =
             (statistics (map kilometers stations)
                @ map NearestRow first10 @ map FarthestRow last5, Returned)
           \<and> first10 = take 10 (sort_key kilometers stations)
           \<and> last5 = drop (length stations - 5) (sort_key kilometers stations)
           \<and> sorted (map kilometers first10)
           \<and> sorted (map kilometers last5)
           \<and> (length stations \<le> 10 \<longrightarrow> first10 = sort_key kilometers stations)
           \<and> (length stations \<le> 5 \<longrightarrow> last5 = sort_key kilometers stations)
           \<and> (5 \<le> length stations \<longrightarrow>
                 length last5 = 5
                 \<and> last5 ! 0 = sort_key kilometers stations ! (length stations - 5)
                 \<and> last5 ! 4 = sort_key kilometers stations ! (length stations - 1))"
proof -
  let ?sorted = "sort_key kilometers stations"
  have asc: "sorted (map kilometers ?sorted)" by (rule sorted_sort_key)
  have near: "sorted (map kilometers (take 10 ?sorted))"
    using sorted_wrt_take [OF asc, of 10] by (simp add: take_map)
  have far: "sorted (map kilometers (drop (length stations - 5) ?sorted))"
    using sorted_wrt_drop [OF asc, of "length stations - 5"] by (simp add: drop_map)
  have ends: "5 \<le> length stations \<Longrightarrow>
        drop (length stations - 5) ?sorted ! 0 = ?sorted ! (length stations - 5)
        \<and> drop (length stations - 5) ?sorted ! 4 = ?sorted ! (length stations - 1)"
    by simp
  show ?thesis
    using print_distance_summary_printable [OF assms] near far ends by simp
qed

section \<open>The station normalizer\<close>

lemma and_then_eq_Inr: "and_then m f = Inr r \<longleftrightarrow> (\<exists>v. m = Inr v \<and> f v = Inr r)"
  by (cases m) simp_all

lemma dict_get_eq_Inr: "dict_get d k dflt = Inr v \<longleftrightarrow> is_dict d \<and> v = get_or d k dflt"
  by (cases d) (auto simp: get_or_def)

lemma dict_get_dict: "is_dict d \<Longrightarrow> dict_get d k dflt = Inr (get_or d k dflt)"
  by (simp add: dict_get_eq_Inr)

lemma dict_get_not_dict: "\<not> is_dict d \<Longrightarrow> dict_get d k dflt = Inl AttributeError"
  by (cases d) simp_all

lemma set_latitude:
  "setitem2 (station_record a b c d lat lon ot we) ''location'' ''latitude'' v
     = Inr (station_record a b c d v lon ot we)"
  by (simp add: setitem2_def station_record_def)

lemma set_longitude:
  "setitem2 (station_record a b c d lat lon ot we) ''location'' ''longitude'' v
     = Inr (station_record a b c d lat v ot we)"
  by (simp add: setitem2_def station_record_def)

lemma set_element:
  "setitem2 (station_record a b c d lat lon ot we) ''weather_elements'' k v
     = Inr (station_record a b c d lat lon ot (AList.update k v we))"
  by (simp add: setitem2_def station_record_def)

lemma scan_coordinates_eq_Inr:
  "scan_coordinates (station_record a b c d lat lon ot we) coords = Inr r \<longleftrightarrow>
     coordinates_readable coords
     \<and> r = station_record a b c d
           (case find is_wgs84 coords of
              None \<Rightarrow> lat | Some e \<Rightarrow> get_or e ''StationLatitude'' PNone)
           (case find is_wgs84 coords of
              None \<Rightarrow> lon | Some e \<Rightarrow> get_or e ''StationLongitude'' PNone)
           ot we"
proof (induction coords)
  case Nil
  then show ?case by auto
next
  case (Cons e coords)
  show ?case
  proof (cases "is_dict e")
    case False
    then show ?thesis by (simp add: dict_get_not_dict)
  next
    case True
    have tag: "get_or e ''CoordinateName'' PNone = PStr ''WGS84'' \<longleftrightarrow> is_wgs84 e"
      by (cases e) (auto simp: get_or_def is_wgs84_def split: option.splits)
    show ?thesis
    proof (cases "is_wgs84 e")
      case wgs: True
      then show ?thesis
        using True by (auto simp: dict_get_dict tag set_latitude set_longitude)
    next
      case other: False
      then show ?thesis
        using True Cons.IH by (simp add: dict_get_dict tag)
    qed
  qed
qed

lemma py_iter_readable:
  "py_iter v = Inr coords \<Longrightarrow> coordinates_readable coords \<Longrightarrow>
     coords = (case v of PList xs \<Rightarrow> xs | _ \<Rightarrow> [])"
proof (cases v)
  case (PStr s)
  assume "py_iter v = Inr coords" "coordinates_readable coords"
  with PStr show ?thesis by (cases s) auto
next
  case (PDict kvs)
  assume "py_iter v = Inr coords" "coordinates_readable coords"
  with PDict show ?thesis by (cases kvs) auto
qed auto

lemma iter_coordinates:
  assumes "py_iter (get_or g ''Coordinates'' (PList [])) = Inr coords"
    and "coordinates_readable coords"
  shows "coords = list_under g ''Coordinates''"
  using py_iter_readable [OF assms]
  by (auto simp: get_or_def list_under_def split: option.splits pyval.splits)

lemma extract_station_chain:
  "extract_station raw = Inr r \<longleftrightarrow>
     is_dict raw
     \<and> is_dict (get_or raw ''GeoInfo'' (PDict []))
     \<and> is_dict (get_or raw ''ObsTime'' (PDict []))
     \<and> (\<exists>coords.
           py_iter (get_or (get_or raw ''GeoInfo'' (PDict [])) ''Coordinates'' (PList []))
             = Inr coords
           \<and> coordinates_readable coords
           \<and> is_dict (get_or raw ''WeatherElement'' (PDict []))
           \<and> is_dict (get_or (get_or raw ''WeatherElement'' (PDict [])) ''Now'' (PDict []))
           \<and> r = station_record
                 (get_or raw ''StationId'' PNone)
                 (get_or raw ''StationName'' (PStr []))
                 (get_or (get_or raw ''GeoInfo'' (PDict [])) ''CountyName'' (PStr []))
                 (get_or (get_or raw ''GeoInfo'' (PDict [])) ''TownName'' (PStr []))
                 (case find is_wgs84 coords of
                    None \<Rightarrow> PNone | Some c \<Rightarrow> get_or c ''StationLatitude'' PNone)
                 (case find is_wgs84 coords of
                    None \<Rightarrow> PNone | Some c \<Rightarrow> get_or c ''StationLongitude'' PNone)
                 (get_or (get_or raw ''ObsTime'' (PDict [])) ''DateTime'' (PStr []))
                 [(''temperature'',
                     get_or (get_or raw ''WeatherElement'' (PDict [])) ''AirTemperature'' PNone),
                  (''humidity'',
                     get_or (get_or raw ''WeatherElement'' (PDict [])) ''RelativeHumidity'' PNone),
                  (''pressure'',
                     get_or (get_or raw ''WeatherElement'' (PDict [])) ''AirPressure'' PNone),
                  (''wind_speed'',
                     get_or (get_or raw ''WeatherElement'' (PDict [])) ''WindSpeed'' PNone),
                  (''wind_direction'',
                     get_or (get_or raw ''WeatherElement'' (PDict [])) ''WindDirection'' PNone),
                  (''weather'',
                     get_or (get_or raw ''WeatherElement'' (PDict [])) ''Weather'' PNone),
                  (''precipitation'',
                     get_or (get_or (get_or raw ''WeatherElement'' (PDict [])) ''Now'' (PDict []))
                       ''Precipitation'' PNone)])"
  unfolding extract_station_def Let_def
  apply (fold station_record_def)
  apply (simp add: and_then_eq_Inr dict_get_eq_Inr scan_coordinates_eq_Inr set_element
      cong: conj_cong)
  apply blast
  done

lemma extract_station_eq_Inr:
  "extract_station raw = Inr r \<longleftrightarrow> extractable raw \<and> r = normalized_station raw"
proof
  assume "extract_station raw = Inr r"
  then obtain coords where
    iter: "py_iter (get_or (get_or raw ''GeoInfo'' (PDict [])) ''Coordinates'' (PList []))
           = Inr coords"
    and readable: "coordinates_readable coords"
    and rest: "extract_station raw = Inr r"
    unfolding extract_station_chain by blast
  have coords: "coords = raw_coordinates raw"
    using iter_coordinates [OF iter readable] by (simp add: raw_coordinates_def)
  from rest iter readable have "extractable raw"
    unfolding extract_station_chain extractable_def by simp
  moreover from rest iter have "r = normalized_station raw"
    unfolding extract_station_chain normalized_station_def Let_def first_wgs84_def coords [symmetric]
    by simp
  ultimately show "extractable raw \<and> r = normalized_station raw" ..
next
  assume a: "extractable raw \<and> r = normalized_station raw"
  then obtain coords where
    iter: "py_iter (get_or (get_or raw ''GeoInfo'' (PDict [])) ''Coordinates'' (PList []))
           = Inr coords"
    and readable: "coordinates_readable coords"
    unfolding extractable_def by (auto split: sum.splits)
  have coords: "coords = raw_coordinates raw"
    using iter_coordinates [OF iter readable] by (simp add: raw_coordinates_def)
  from a iter readable show "extract_station raw = Inr r"
    unfolding extract_station_chain extractable_def normalized_station_def Let_def
      first_wgs84_def coords [symmetric]
    by simp
qed

lemma extract_station_not_dict: "\<not> is_dict raw \<Longrightarrow> extract_station raw = Inl AttributeError"
  by (simp add: extract_station_def dict_get_not_dict)

lemma extract_loop_result:
  "extract_loop acc entries = Inr out \<Longrightarrow>
     out = acc @ map normalized_station (filter extractable entries)"
proof (induction entries arbitrary: acc)
  case Nil
  then show ?case by simp
next
  case (Cons raw entries)
  show ?case
  proof (cases "extract_station raw")
    case (Inr info)
    then have info: "extractable raw" "info = normalized_station raw"
      by (simp_all add: extract_station_eq_Inr)
    from Cons.prems Inr have "extract_loop (acc @ [info]) entries = Inr out" by simp
    from Cons.IH [OF this] info show ?thesis by simp
  next
    case (Inl e)
    then have skip: "\<not> extractable raw" using extract_station_eq_Inr [of raw] by auto
    from Cons.prems Inl have "extract_loop acc entries = Inr out"
      by (simp split: sum.splits)
    from Cons.IH [OF this] skip show ?thesis by simp
  qed
qed

lemma extract_loop_dicts:
  "list_all is_dict entries \<Longrightarrow>
     extract_loop acc entries = Inr (acc @ map normalized_station (filter extractable entries))"
proof (induction entries arbitrary: acc)
  case Nil
  then show ?case by simp
next
  case (Cons raw entries)
  show ?case
  proof (cases "extract_station raw")
    case (Inr info)
    then have "extractable raw" "info = normalized_station raw"
      by (simp_all add: extract_station_eq_Inr)
    with Cons Inr show ?thesis by simp
  next
    case (Inl e)
    then have "\<not> extractable raw" using extract_station_eq_Inr [of raw] by auto
    with Cons Inl show ?thesis by (simp add: dict_get_dict)
  qed
qed

lemma extract_loop_dicts_only:
  "extract_loop acc entries = Inr out \<Longrightarrow> list_all is_dict entries"
proof (induction entries arbitrary: acc)
  case Nil
  then show ?case by simp
next
  case (Cons raw entries)
  then show ?case
    by (cases "is_dict raw")
      (auto simp: extract_station_not_dict dict_get_not_dict split: sum.splits)
qed

lemma extract_temperature_data_result:
  assumes "extract_temperature_data doc = Inr out"
  shows "out = map normalized_station (filter extractable (document_stations doc))"
proof (cases "truthy doc")
  case False
  then have "document_stations doc = []"
    by (cases doc) (simp_all add: document_stations_def get_or_def list_under_def)
  with False assms show ?thesis by (simp add: extract_temperature_data_def)
next
  case True
  with assms obtain entries where
    iter: "py_iter (get_or (get_or doc ''records'' (PDict [])) ''Station'' (PList [])) = Inr entries"
    and loop: "extract_loop [] entries = Inr out"
    by (auto simp: extract_temperature_data_def and_then_eq_Inr dict_get_eq_Inr)
  have dicts: "list_all is_dict entries" using loop by (rule extract_loop_dicts_only)
  have "entries = document_stations doc"
  proof (cases "get_or (get_or doc ''records'' (PDict [])) ''Station'' (PList [])")
    case (PList xs)
    with iter show ?thesis
      by (auto simp: document_stations_def list_under_def get_or_def split: option.splits)
  next
    case (PStr s)
    with iter dicts have "entries = []" by (cases s) auto
    with PStr show ?thesis
      by (auto simp: document_stations_def list_under_def get_or_def split: option.splits)
  next
    case (PDict kvs)
    with iter dicts have "entries = []" by (cases kvs) auto
    with PDict show ?thesis
      by (auto simp: document_stations_def list_under_def get_or_def split: option.splits)
  qed (use iter in simp_all)
  with extract_loop_result [OF loop] show ?thesis by simp
qed

lemma first_wgs84_Some_iff:
  "first_wgs84 raw = Some c \<longleftrightarrow>
     (\<exists>before rest. raw_coordinates raw = before @ c # rest \<and> is_wgs84 c
        \<and> (\<forall>b \<in> set before. \<not> is_wgs84 b))"
proof
  assume "first_wgs84 raw = Some c"
  then obtain i where i: "i < length (raw_coordinates raw)" "is_wgs84 (raw_coordinates raw ! i)"
    "c = raw_coordinates raw ! i" "\<forall>j<i. \<not> is_wgs84 (raw_coordinates raw ! j)"
    unfolding first_wgs84_def find_Some_iff by blast
  let ?cs = "raw_coordinates raw"
  have "?cs = take i ?cs @ c # drop (Suc i) ?cs"
    using i by (simp add: id_take_nth_drop)
  moreover have "\<forall>b \<in> set (take i ?cs). \<not> is_wgs84 b"
    using i by (auto simp: in_set_conv_nth)
  ultimately show "\<exists>before rest. ?cs = before @ c # rest \<and> is_wgs84 c
        \<and> (\<forall>b \<in> set before. \<not> is_wgs84 b)"
    using i by blast
next
  assume "\<exists>before rest. raw_coordinates raw = before @ c # rest \<and> is_wgs84 c
        \<and> (\<forall>b \<in> set before. \<not> is_wgs84 b)"
  then obtain before rest where d: "raw_coordinates raw = before @ c # rest" "is_wgs84 c"
    "\<forall>b \<in> set before. \<not> is_wgs84 b" by blast
  have "find is_wgs84 (before @ c # rest) = Some c"
    using d(2,3) by (induction before) simp_all
  with d(1) show "first_wgs84 raw = Some c" by (simp add: first_wgs84_def)
qed

lemma first_wgs84_None_iff:
  "first_wgs84 raw = None \<longleftrightarrow> (\<forall>c \<in> set (raw_coordinates raw). \<not> is_wgs84 c)"
  by (auto simp: first_wgs84_def find_None_iff)

lemma normalized_takes_first_wgs84: "takes_first_wgs84 raw (normalized_station raw)"
  by (simp add: takes_first_wgs84_def normalized_station_def Let_def station_record_def
        field2_def split: option.splits)

lemma normalized_has_schema: "has_schema raw (normalized_station raw)"
  unfolding has_schema_def normalized_station_def Let_def by blast

lemma list_all2_map_same: "(\<And>x. x \<in> set xs \<Longrightarrow> P x (f x)) \<Longrightarrow> list_all2 P xs (map f xs)"
  by (induction xs) simp_all

text \<open>
  C7. The records of \<open>extract_temperature_data\<close> are, in order, those of the raw stations
  that it can read, and each takes its latitude and longitude from the first coordinate
  entry tagged \<^verbatim>\<open>"WGS84"\<close> of its raw station; without such an entry both stay \<^verbatim>\<open>None\<close>.
\<close>

theorem wgs84_coordinates:
  assumes "extract_temperature_data doc = Inr out"
  shows "list_all2 takes_first_wgs84 (filter extractable (document_stations doc)) out"
  unfolding extract_temperature_data_result [OF assms]
  by (rule list_all2_map_same) (rule normalized_takes_first_wgs84)

lemma sample_extract: "extract_station sample_raw_station = Inr sample_station"
  by (simp add: extract_station_def sample_raw_station_def sample_station_def
        station_record_def setitem2_def)

lemma blank_extract: "extract_station (PDict []) = Inr blank_station"
  by (simp add: extract_station_def blank_station_def station_record_def setitem2_def)

lemma sample_extractable: "extractable sample_raw_station"
  using sample_extract by (simp add: extract_station_eq_Inr)

lemma blank_extractable: "extractable (PDict [])"
  using blank_extract by (simp add: extract_station_eq_Inr)

lemma document_stations_document [simp]: "document_stations (document entries) = entries"
  by (simp add: document_stations_def document_def get_or_def list_under_def)

lemma extract_document:
  "extract_temperature_data (document entries) = extract_loop [] entries"
  by (simp add: extract_temperature_data_def document_def)

theorem wgs84_coordinates_witness:
  "extract_temperature_data (document [sample_raw_station, PDict []])
     = Inr [sample_station, blank_station]
   \<and> list_all2 takes_first_wgs84 [sample_raw_station, PDict []] [sample_station, blank_station]
   \<and> field2 sample_station ''location'' ''latitude'' = Some (PStr ''25.0377'')
   \<and> field2 sample_station ''location'' ''longitude'' = Some (PStr ''121.5149'')
   \<and> field2 blank_station ''location'' ''latitude'' = Some PNone
   \<and> field2 blank_station ''location'' ''longitude'' = Some PNone"
proof -
  have run: "extract_temperature_data (document [sample_raw_station, PDict []])
             = Inr [sample_station, blank_station]"
    by (simp add: extract_document sample_extract blank_extract)
  have fields: "field2 sample_station ''location'' ''latitude'' = Some (PStr ''25.0377'')"
    "field2 sample_station ''location'' ''longitude'' = Some (PStr ''121.5149'')"
    "field2 blank_station ''location'' ''latitude'' = Some PNone"
    "field2 blank_station ''location'' ''longitude'' = Some PNone"
    by (simp_all add: field2_def sample_station_def blank_station_def station_record_def)
  show ?thesis
    using wgs84_coordinates [OF run] run fields
    by (simp add: sample_extractable blank_extractable)
qed

text \<open>
  C8, at an entry of the station list that is not an object: the handler of the loop
  raises in its turn, and the records of the other entries are lost with it.
\<close>

theorem malformed_entry_discards_batch:
  "extract_temperature_data (document [sample_raw_station, PNone]) = Inl AttributeError"
  by (simp add: extract_document sample_extract extract_station_not_dict)

text \<open>What holds of C8: without the \<^verbatim>\<open>records\<close> key or the \<^verbatim>\<open>Station\<close> list the result
  is empty, and among entries that are objects the unreadable ones are skipped, the others
  keeping their order.\<close>

lemma missing_records_empty:
  "is_dict doc \<Longrightarrow> lookup doc ''records'' = None \<Longrightarrow> extract_temperature_data doc = Inr []"
  by (cases doc) (simp_all add: extract_temperature_data_def)

lemma missing_station_list_empty:
  assumes "lookup doc ''records'' = Some records" and "is_dict records"
    and "lookup records ''Station'' = None"
  shows "extract_temperature_data doc = Inr []"
proof -
  from assms(1) obtain kvs where doc: "doc = PDict kvs" by (cases doc) simp_all
  from assms(2) obtain rs where records: "records = PDict rs" by (cases records) simp_all
  show ?thesis using assms doc records by (simp add: extract_temperature_data_def)
qed

lemma object_entries_skipped_singly:
  assumes "list_all is_dict entries"
  shows "extract_temperature_data (document entries)
           = Inr (map normalized_station (filter extractable entries))"
  using extract_loop_dicts [OF assms, of "[]"] by (simp add: extract_document)

lemma extract_length_le:
  assumes "extract_temperature_data doc = Inr out"
  shows "length out \<le> length (document_stations doc)"
  unfolding extract_temperature_data_result [OF assms] by simp

text \<open>
  C10, as the code has it. Every record has the fixed schema: the keys \<open>station_id\<close>,
  \<open>station_name\<close>, \<open>location\<close> (with \<open>county\<close>, \<open>town\<close>, \<open>latitude\<close>, \<open>longitude\<close>),
  \<open>observation_time\<close> and \<open>weather_elements\<close> (with the seven elements). Name, county, town
  and observation time are the values of the raw station, whatever their type, and the
  empty string where the raw station has none.
\<close>

theorem record_schema:
  assumes "extract_temperature_data doc = Inr out"
  shows "list_all2 has_schema (filter extractable (document_stations doc)) out"
  unfolding extract_temperature_data_result [OF assms]
  by (rule list_all2_map_same) (rule normalized_has_schema)

theorem record_schema_witness:
  "extract_temperature_data (document [PDict [], PDict [(''GeoInfo'', PNone)]])
     = Inr [blank_station]
   \<and> list_all2 has_schema [PDict []] [blank_station]
   \<and> string_fields blank_station"
proof -
  have skipped: "\<not> extractable (PDict [(''GeoInfo'', PNone)])"
    by (simp add: extractable_def get_or_def)
  then have "extract_station (PDict [(''GeoInfo'', PNone)]) \<noteq> Inr r" for r
    by (simp add: extract_station_eq_Inr)
  then obtain e where "extract_station (PDict [(''GeoInfo'', PNone)]) = Inl e"
    by (cases "extract_station (PDict [(''GeoInfo'', PNone)])") auto
  then have run: "extract_temperature_data (document [PDict [], PDict [(''GeoInfo'', PNone)]])
                  = Inr [blank_station]"
    by (simp add: extract_document blank_extract)
  have "string_fields blank_station"
    by (simp add: string_fields_def blank_station_def station_record_def field2_def)
  then show ?thesis
    using record_schema [OF run] run skipped by (simp add: blank_extractable)
qed

text \<open>C10 as stated fails: a raw station whose name is \<^verbatim>\<open>null\<close> gives a record whose
  name is \<^verbatim>\<open>None\<close>, not a string.\<close>

theorem station_name_not_always_string:
  "extract_temperature_data (document [PDict [(''StationName'', PNone)]])
     = Inr [station_record PNone PNone (PStr []) (PStr []) PNone PNone (PStr [])
              [(''temperature'', PNone),
               (''humidity'', PNone),
               (''pressure'', PNone),
               (''wind_speed'', PNone),
               (''wind_direction'', PNone),
               (''weather'', PNone),
               (''precipitation'', PNone)]]
   \<and> \<not> string_fields
         (station_record PNone PNone (PStr []) (PStr []) PNone PNone (PStr [])
              [(''temperature'', PNone),
               (''humidity'', PNone),
               (''pressure'', PNone),
               (''wind_speed'', PNone),
               (''wind_direction'', PNone),
               (''weather'', PNone),
               (''precipitation'', PNone)])"
  by (simp add: extract_document extract_station_def station_record_def setitem2_def
        string_fields_def field2_def)

section \<open>The distances to the reference point\<close>




lemma lookup_setitem:
  "setitem s k v = Inr r \<Longrightarrow> lookup r k' = (if k' = k then Some v else lookup s k')"
  by (cases s) (auto simp: update_conv')





lemma haversine_float_finite:
  "haversine_distance_float (Fin lat1) (Fin lon1) (Fin lat2) (Fin lon2)
     = Inr (Fin (great_circle lat1 lon1 lat2 lon2))"
proof -
  have "haversine_distance_float (Fin lat1) (Fin lon1) (Fin lat2) (Fin lon2)
        = and_then (haversine_distance lat1 lon1 lat2 lon2) (\<lambda>d. Inr (Fin d))"
    by (simp add: haversine_distance_float_def haversine_distance_def Let_def
          py_sqrt_def py_asin_def)
  then show ?thesis by (simp add: haversine_distance_value)
qed












section \<open>The store that the distance calculation leaves\<close>

lemma station_distance_dict: "station_distance pf s la lo = Inr (Some info) \<Longrightarrow> is_dict s"
  by (cases s) (simp_all add: station_distance_def)

lemma step_store_skip:
  assumes "station_with_distance_store pf h a la lo = (h1, res)"
    and "\<And>c. res \<noteq> Inr (Some c)"
  shows "h1 = h \<and> station_with_distance pf (h ! a) la lo = map_sum id (map_option ((!) h1)) res"
proof (cases "station_distance pf (h ! a) la lo")
  case (Inl e)
  with assms(1) show ?thesis
    by (auto simp: station_with_distance_store_def station_with_distance_def)
next
  case (Inr r)
  show ?thesis
  proof (cases r)
    case None
    with Inr assms(1) show ?thesis
      by (auto simp: station_with_distance_store_def station_with_distance_def)
  next
    case (Some info)
    with Inr have "is_dict (h ! a)" by (simp add: station_distance_dict)
    then obtain kvs where "h ! a = PDict kvs" by (cases "h ! a") simp_all
    with Inr Some assms show ?thesis
      by (auto simp: station_with_distance_store_def store_copy_def store_setitem_def)
  qed
qed

lemma step_store_copy:
  assumes "station_with_distance_store pf h a la lo = (h1, Inr (Some c))"
  shows "c = length h \<and> length h1 = Suc (length h) \<and> (\<forall>i<length h. h1 ! i = h ! i)
         \<and> station_with_distance pf (h ! a) la lo = Inr (Some (h1 ! c))
         \<and> (\<exists>info. setitem (h ! a) ''distance_to_taipei'' info = Inr (h1 ! c))"
proof (cases "station_distance pf (h ! a) la lo")
  case (Inl e)
  with assms show ?thesis by (simp add: station_with_distance_store_def)
next
  case (Inr r)
  show ?thesis
  proof (cases r)
    case None
    with Inr assms show ?thesis by (simp add: station_with_distance_store_def)
  next
    case (Some info)
    with Inr have "is_dict (h ! a)" by (simp add: station_distance_dict)
    then obtain kvs where kvs: "h ! a = PDict kvs" by (cases "h ! a") simp_all
    from Inr Some assms kvs have
      c: "c = length h"
      and h1: "h1 = (h @ [PDict kvs])
                      [length h := PDict (AList.update ''distance_to_taipei'' info kvs)]"
      by (auto simp: station_with_distance_store_def store_copy_def store_setitem_def)
    have at_c: "h1 ! c = PDict (AList.update ''distance_to_taipei'' info kvs)"
      by (simp add: h1 c)
    have below: "\<forall>i<length h. h1 ! i = h ! i"
      by (simp add: h1 nth_append)
    have "station_with_distance pf (h ! a) la lo = Inr (Some (h1 ! c))"
      using Inr Some by (simp add: station_with_distance_def kvs at_c)
    moreover have "setitem (h ! a) ''distance_to_taipei'' info = Inr (h1 ! c)"
      by (simp add: kvs at_c)
    ultimately show ?thesis using c below by (auto simp: h1)
  qed
qed


lemma loop_store:
  assumes "list_all (\<lambda>a. a < length h) ws" and "list_all (\<lambda>a. a < length h) acc"
    and "distances_loop_store pf la lo acc h ws = (h', res)"
  shows "length h \<le> length h'
         \<and> (\<forall>i<length h. h' ! i = h ! i)
         \<and> map_sum id (map ((!) h')) res
             = distances_loop pf la lo (map ((!) h) acc) (map ((!) h) ws)
         \<and> (\<forall>out. res = Inr out \<longrightarrow>
               (\<exists>new. out = acc @ new \<and> distinct new
                  \<and> (\<forall>q \<in> set new. length h \<le> q \<and> q < length h'
                        \<and> (\<exists>a \<in> set ws. \<exists>info.
                              setitem (h ! a) ''distance_to_taipei'' info = Inr (h' ! q)))))"
  using assms
proof (induction ws arbitrary: acc h)
  case Nil
  then show ?case by (auto simp: list_all_iff intro!: map_cong)
next
  case (Cons a ws)
  from Cons.prems have a: "a < length h" and ws: "list_all (\<lambda>a. a < length h) ws"
    and acc: "list_all (\<lambda>a. a < length h) acc" by simp_all
  obtain h1 r1 where step: "station_with_distance_store pf h a la lo = (h1, r1)"
    by (cases "station_with_distance_store pf h a la lo") blast
  show ?case
  proof (cases "\<exists>c. r1 = Inr (Some c)")
    case True
    then obtain c where r1: "r1 = Inr (Some c)" by blast
    from step_store_copy [OF step [unfolded r1]] have
      c: "c = length h" and len: "length h1 = Suc (length h)"
      and same: "\<forall>i<length h. h1 ! i = h ! i"
      and val: "station_with_distance pf (h ! a) la lo = Inr (Some (h1 ! c))"
      and upd: "\<exists>info. setitem (h ! a) ''distance_to_taipei'' info = Inr (h1 ! c)"
      by blast+
    from Cons.prems(3) step r1 have
      loop: "distances_loop_store pf la lo (acc @ [c]) h1 ws = (h', res)" by simp
    have ws1: "list_all (\<lambda>a. a < length h1) ws"
      using ws len by (auto simp: list_all_iff)
    have acc1: "list_all (\<lambda>a. a < length h1) (acc @ [c])"
      using acc len c by (auto simp: list_all_iff)
    note IH = Cons.IH [OF ws1 acc1 loop]
    from IH have le: "length h1 \<le> length h'" and same': "\<forall>i<length h1. h' ! i = h1 ! i"
      by blast+
    have macc: "map ((!) h1) acc = map ((!) h) acc"
      using acc same by (auto simp: list_all_iff)
    have mws: "map ((!) h1) ws = map ((!) h) ws"
      using ws same by (auto simp: list_all_iff)
    have p1: "length h \<le> length h'" using le len by simp
    have p2: "\<forall>i<length h. h' ! i = h ! i" using same same' len by simp
    have p3: "map_sum id (map ((!) h')) res
              = distances_loop pf la lo (map ((!) h) acc) (map ((!) h) (a # ws))"
      using IH val by (simp add: macc mws id_def)
    have p4: "\<forall>out. res = Inr out \<longrightarrow>
               (\<exists>new. out = acc @ new \<and> distinct new
                  \<and> (\<forall>q \<in> set new. length h \<le> q \<and> q < length h'
                        \<and> (\<exists>b \<in> set (a # ws). \<exists>info.
                              setitem (h ! b) ''distance_to_taipei'' info = Inr (h' ! q))))"
    proof (intro allI impI)
      fix out assume "res = Inr out"
      with IH obtain new where new: "out = (acc @ [c]) @ new" "distinct new"
        "\<forall>q \<in> set new. length h1 \<le> q \<and> q < length h'
            \<and> (\<exists>b \<in> set ws. \<exists>info.
                  setitem (h1 ! b) ''distance_to_taipei'' info = Inr (h' ! q))"
        by blast
      have "c \<notin> set new" using new(3) c len by auto
      then have d: "distinct (c # new)" using new(2) by simp
      have hc: "h' ! c = h1 ! c" using same' c len by simp
      have "\<forall>q \<in> set (c # new). length h \<le> q \<and> q < length h'
              \<and> (\<exists>b \<in> set (a # ws). \<exists>info.
                    setitem (h ! b) ''distance_to_taipei'' info = Inr (h' ! q))"
      proof
        fix q assume "q \<in> set (c # new)"
        then consider "q = c" | "q \<in> set new" by auto
        then show "length h \<le> q \<and> q < length h'
              \<and> (\<exists>b \<in> set (a # ws). \<exists>info.
                    setitem (h ! b) ''distance_to_taipei'' info = Inr (h' ! q))"
        proof cases
          case 1
          then show ?thesis using c le len upd hc by auto
        next
          case 2
          with new(3) obtain b info where b: "length h1 \<le> q" "q < length h'" "b \<in> set ws"
            "setitem (h1 ! b) ''distance_to_taipei'' info = Inr (h' ! q)" by blast
          from b(3) ws have "b < length h" by (auto simp: list_all_iff)
          with same have "h1 ! b = h ! b" by simp
          with b len show ?thesis by auto
        qed
      qed
      with new(1) d show "\<exists>new. out = acc @ new \<and> distinct new
                  \<and> (\<forall>q \<in> set new. length h \<le> q \<and> q < length h'
                        \<and> (\<exists>b \<in> set (a # ws). \<exists>info.
                              setitem (h ! b) ''distance_to_taipei'' info = Inr (h' ! q)))"
        by (intro exI [of _ "c # new"]) simp
    qed
    from p1 p2 p3 p4 show ?thesis by blast
  next
    case False
    then have no: "\<And>c. r1 \<noteq> Inr (Some c)" by blast
    from step_store_skip [OF step no] have h1: "h1 = h"
      and val: "station_with_distance pf (h ! a) la lo = map_sum id (map_option ((!) h1)) r1"
      by blast+
    have continue: ?thesis
      if "distances_loop_store pf la lo acc h (a # ws)
          = distances_loop_store pf la lo acc h ws"
        and "distances_loop pf la lo (map ((!) h) acc) (map ((!) h) (a # ws))
             = distances_loop pf la lo (map ((!) h) acc) (map ((!) h) ws)"
    proof -
      from that(1) Cons.prems(3) have
        loop: "distances_loop_store pf la lo acc h ws = (h', res)" by simp
      from Cons.IH [OF ws acc loop] that(2) show ?thesis by auto
    qed
    have stop: ?thesis
      if "distances_loop_store pf la lo acc h (a # ws) = (h, Inl e)"
        and "distances_loop pf la lo (map ((!) h) acc) (map ((!) h) (a # ws)) = Inl e" for e
      using that Cons.prems(3) by auto
    show ?thesis
    proof (cases r1)
      case (Inr r)
      with no have r: "r = None" by (cases r) auto
      show ?thesis
        using step val h1 Inr r by (intro continue) simp_all
    next
      case (Inl e)
      show ?thesis
      proof (cases "caught e")
        case False
        then show ?thesis
          using step val h1 Inl by (intro stop [of e]) simp_all
      next
        case True
        show ?thesis
        proof (cases "dict_get (h ! a) ''station_name'' (PStr ''Unknown'')")
          case shown: (Inr v)
          then show ?thesis
            using step val h1 Inl True by (intro continue) simp_all
        next
          case failed: (Inl e')
          then show ?thesis
            using step val h1 Inl True by (intro stop [of e']) simp_all
        qed
      qed
    qed
  qed
qed

text \<open>
  C9. Whatever \<open>calculate_distances_to_taipei_station\<close> does, it leaves every object that
  existed before the call as it was, the input stations among them. Its results are the
  results of the function on the values of the input stations, and each output record is a
  new object, distinct from the others: a copy of an input station with the key
  \<^verbatim>\<open>distance_to_taipei\<close> set and every other key as in that station.
\<close>

theorem inputs_not_mutated:
  assumes "list_all (\<lambda>a. a < length h) weather_data"
    and "calculate_distances_store pf h weather_data taipei_lat taipei_lon = (h', result)"
  shows "length h \<le> length h'
         \<and> (\<forall>a<length h. h' ! a = h ! a)
         \<and> map_sum id (map ((!) h')) result
             = calculate_distances_to_taipei_station pf (map ((!) h) weather_data)
                 taipei_lat taipei_lon
         \<and> (\<forall>out. result = Inr out \<longrightarrow>
               distinct out
               \<and> (\<forall>q \<in> set out. length h \<le> q \<and> q < length h'
                     \<and> (\<exists>a \<in> set weather_data.
                           (\<exists>info. setitem (h ! a) ''distance_to_taipei'' info = Inr (h' ! q))
                           \<and> (\<forall>k. k \<noteq> ''distance_to_taipei'' \<longrightarrow>
                                  lookup (h' ! q) k = lookup (h ! a) k))))"
proof -
  have none: "list_all (\<lambda>a. a < length h) []" by simp
  note run = loop_store [OF assms(1) none assms(2) [unfolded calculate_distances_store_def]]
  have "\<forall>out. result = Inr out \<longrightarrow>
               distinct out
               \<and> (\<forall>q \<in> set out. length h \<le> q \<and> q < length h'
                     \<and> (\<exists>a \<in> set weather_data.
                           (\<exists>info. setitem (h ! a) ''distance_to_taipei'' info = Inr (h' ! q))
                           \<and> (\<forall>k. k \<noteq> ''distance_to_taipei'' \<longrightarrow>
                                  lookup (h' ! q) k = lookup (h ! a) k)))"
  proof (intro allI impI)
    fix out assume "result = Inr out"
    with run have d: "distinct out"
      and new: "\<forall>q \<in> set out. length h \<le> q \<and> q < length h'
                  \<and> (\<exists>a \<in> set weather_data. \<exists>info.
                        setitem (h ! a) ''distance_to_taipei'' info = Inr (h' ! q))"
      by auto
    have "\<forall>q \<in> set out. length h \<le> q \<and> q < length h'
            \<and> (\<exists>a \<in> set weather_data.
                  (\<exists>info. setitem (h ! a) ''distance_to_taipei'' info = Inr (h' ! q))
                  \<and> (\<forall>k. k \<noteq> ''distance_to_taipei'' \<longrightarrow>
                         lookup (h' ! q) k = lookup (h ! a) k))"
    proof
      fix q assume "q \<in> set out"
      with new obtain a info where a: "length h \<le> q" "q < length h'" "a \<in> set weather_data"
        "setitem (h ! a) ''distance_to_taipei'' info = Inr (h' ! q)" by blast
      from lookup_setitem [OF a(4)] have
        "\<forall>k. k \<noteq> ''distance_to_taipei'' \<longrightarrow> lookup (h' ! q) k = lookup (h ! a) k" by simp
      with a show "length h \<le> q \<and> q < length h'
            \<and> (\<exists>a \<in> set weather_data.
                  (\<exists>info. setitem (h ! a) ''distance_to_taipei'' info = Inr (h' ! q))
                  \<and> (\<forall>k. k \<noteq> ''distance_to_taipei'' \<longrightarrow>
                         lookup (h' ! q) k = lookup (h ! a) k))"
        by blast
    qed
    with d show "distinct out
               \<and> (\<forall>q \<in> set out. length h \<le> q \<and> q < length h'
                     \<and> (\<exists>a \<in> set weather_data.
                           (\<exists>info. setitem (h ! a) ''distance_to_taipei'' info = Inr (h' ! q))
                           \<and> (\<forall>k. k \<noteq> ''distance_to_taipei'' \<longrightarrow>
                                  lookup (h' ! q) k = lookup (h ! a) k)))"
      by simp
  qed
  with run show ?thesis by (simp add: calculate_distances_to_taipei_station_def)
qed

lemma sample_station_distance:
  "station_distance sample_parse sample_station la lo
     = Inr (Some (distance_info la lo
              (PNum (py_round2 (great_circle (250377 / 10000) (1215149 / 10000) la lo)))))"
  by (simp add: station_distance_def sample_station_def station_record_def sample_parse_def
        haversine_float_finite distance_info_def)

lemma blank_station_distance: "station_distance sample_parse blank_station la lo = Inr None"
  by (simp add: station_distance_def blank_station_def station_record_def)

theorem inputs_not_mutated_witness:
  "list_all (\<lambda>a. a < length [blank_station, sample_station]) [0, 1]
   \<and> (\<exists>h'. calculate_distances_store sample_parse [blank_station, sample_station] [0, 1]
               (250478 / 10000) (121517 / 1000) = (h', Inr [2])
          \<and> length h' = 3
          \<and> h' ! 0 = blank_station
          \<and> h' ! 1 = sample_station
          \<and> lookup (h' ! 2) ''station_name'' = Some (PStr ''Taipei''))"
proof -
  let ?h = "[blank_station, sample_station]"
  let ?r = "PDict (AList.update ''distance_to_taipei''
              (distance_info (250478 / 10000) (121517 / 1000)
                 (PNum (py_round2 (great_circle (250377 / 10000) (1215149 / 10000)
                    (250478 / 10000) (121517 / 1000)))))
              [(''station_id'', PStr ''466920''),
               (''station_name'', PStr ''Taipei''),
               (''location'', PDict
                  [(''county'', PStr ''Taipei''),
                   (''town'', PStr ''Zhongzheng''),
                   (''latitude'', PStr ''25.0377''),
                   (''longitude'', PStr ''121.5149'')]),
               (''observation_time'', PStr ''2025-01-01T12:00:00+08:00''),
               (''weather_elements'', PDict
                  [(''temperature'', PStr ''21.5''),
                   (''humidity'', PStr ''78''),
                   (''pressure'', PStr ''1012.3''),
                   (''wind_speed'', PStr ''3.1''),
                   (''wind_direction'', PStr ''70''),
                   (''weather'', PStr ''cloudy''),
                   (''precipitation'', PStr ''0.0'')])])"
  have valid: "list_all (\<lambda>a. a < length ?h) [0, 1]" by simp
  have copied: "store_copy ?h (Suc 0)
                = Inr ([blank_station, sample_station, sample_station], 2)"
    by (simp add: store_copy_def sample_station_def station_record_def)
  have written: "store_setitem [blank_station, sample_station, sample_station] 2
                   ''distance_to_taipei'' info
                 = Inr ([blank_station, sample_station,
                         PDict (AList.update ''distance_to_taipei'' info
                     [(''station_id'', PStr ''466920''),
                      (''station_name'', PStr ''Taipei''),
                      (''location'', PDict
                         [(''county'', PStr ''Taipei''),
                          (''town'', PStr ''Zhongzheng''),
                          (''latitude'', PStr ''25.0377''),
                          (''longitude'', PStr ''121.5149'')]),
                      (''observation_time'', PStr ''2025-01-01T12:00:00+08:00''),
                      (''weather_elements'', PDict
                         [(''temperature'', PStr ''21.5''),
                          (''humidity'', PStr ''78''),
                          (''pressure'', PStr ''1012.3''),
                          (''wind_speed'', PStr ''3.1''),
                          (''wind_direction'', PStr ''70''),
                          (''weather'', PStr ''cloudy''),
                          (''precipitation'', PStr ''0.0'')])])])" for info
    by (simp add: store_setitem_def sample_station_def station_record_def)
  have run: "calculate_distances_store sample_parse ?h [0, 1] (250478 / 10000) (121517 / 1000)
             = ([blank_station, sample_station, ?r], Inr [2])"
    by (simp add: calculate_distances_store_def station_with_distance_store_def
          blank_station_distance sample_station_distance copied written)
  have name: "lookup ?r ''station_name'' = Some (PStr ''Taipei'')" by simp
  from inputs_not_mutated [OF valid run]
  have "\<forall>a<2. [blank_station, sample_station, ?r] ! a = ?h ! a" by simp
  then have "[blank_station, sample_station, ?r] ! 0 = blank_station"
    "[blank_station, sample_station, ?r] ! 1 = sample_station" by simp_all
  with run name valid show ?thesis by simp
qed

section \<open>The sentinel temperature\<close>

lemma sentinel_reading:
  assumes "is_sentinel s"
  shows "and_then (subscript s ''weather_elements'')
           (\<lambda>elements. dict_get elements ''temperature'' PNone) = Inr (PStr ''-99'')"
proof -
  from assms obtain elements where e: "lookup s ''weather_elements'' = Some elements"
    "lookup elements ''temperature'' = Some (PStr ''-99'')"
    by (auto simp: is_sentinel_def field2_def split: option.splits)
  from e(2) obtain kvs where "elements = PDict kvs" by (cases elements) simp_all
  with e show ?thesis by (simp add: subscript_lookup)
qed

lemma valid_temps_loop_filter:
  "valid_temps_loop pf acc (filter (\<lambda>s. \<not> is_sentinel s) data) = valid_temps_loop pf acc data"
proof (induction data arbitrary: acc)
  case Nil
  then show ?case by simp
next
  case (Cons s data)
  show ?case
  proof (cases "is_sentinel s")
    case True
    then show ?thesis using Cons by (simp add: sentinel_reading)
  next
    case False
    then show ?thesis using Cons by (simp split: sum.splits)
  qed
qed

lemma py_float_upd: "t \<noteq> PStr k \<Longrightarrow> py_float (pf(k := v)) t = py_float pf t"
  by (cases t) auto

lemma valid_temps_loop_agree:
  assumes "\<And>t. t \<noteq> PStr ''-99'' \<Longrightarrow> py_float pf' t = py_float pf t"
  shows "valid_temps_loop pf' acc data = valid_temps_loop pf acc data"
proof (induction data arbitrary: acc)
  case Nil
  then show ?case by simp
next
  case (Cons s data)
  show ?case by (simp add: Cons.IH assms cong: sum.case_cong if_cong)
qed

lemma valid_temps_loop_upd:
  "valid_temps_loop (pf(''-99'' := v)) acc data = valid_temps_loop pf acc data"
  by (rule valid_temps_loop_agree) (rule py_float_upd)

lemma valid_temps_loop_all_sentinel:
  "list_all is_sentinel data \<Longrightarrow> valid_temps_loop pf acc data = Inr acc"
  by (induction data arbitrary: acc) (simp_all add: sentinel_reading)

lemma temperature_extremes_filter:
  "temperature_extremes pf (filter (\<lambda>s. \<not> is_sentinel s) data) = temperature_extremes pf data"
proof (cases "filter (\<lambda>s. \<not> is_sentinel s) data = []")
  case False
  then have "data \<noteq> []" by auto
  with False show ?thesis by (simp add: temperature_extremes_def valid_temps_loop_filter)
next
  case True
  then have "list_all is_sentinel data" by (simp add: filter_empty_conv list_all_iff)
  then have "valid_temps_loop pf [] data = Inr []" by (rule valid_temps_loop_all_sentinel)
  with True show ?thesis by (simp add: temperature_extremes_def)
qed

lemma sentinel_not_valid: "is_sentinel s \<Longrightarrow> has_valid_temperature s = Inr False"
proof -
  assume "is_sentinel s"
  then obtain elements where e: "lookup s ''weather_elements'' = Some elements"
    "lookup elements ''temperature'' = Some (PStr ''-99'')"
    by (auto simp: is_sentinel_def field2_def split: option.splits)
  from e(2) obtain kvs where "elements = PDict kvs" by (cases elements) simp_all
  with e show ?thesis by (simp add: has_valid_temperature_def subscript_lookup)
qed

lemma filter_raising_filter:
  "filter_raising has_valid_temperature (filter (\<lambda>s. \<not> is_sentinel s) data)
     = filter_raising has_valid_temperature data"
proof (induction data)
  case Nil
  then show ?case by simp
next
  case (Cons s data)
  show ?case
  proof (cases "is_sentinel s")
    case True
    then show ?thesis
      using Cons by (cases "filter_raising has_valid_temperature data")
        (simp_all add: sentinel_not_valid)
  next
    case False
    then show ?thesis by (simp add: Cons cong: sum.case_cong)
  qed
qed

lemma filter_raising_holds:
  "filter_raising p xs = Inr ys \<Longrightarrow> y \<in> set ys \<Longrightarrow> p y = Inr True"
proof (induction xs arbitrary: ys)
  case Nil
  then show ?case by simp
next
  case (Cons x xs)
  then show ?case by (auto split: sum.splits if_splits)
qed

lemma collect_cong_set:
  "(\<And>x. x \<in> set xs \<Longrightarrow> f x = g x) \<Longrightarrow> collect f xs = collect g xs"
  by (induction xs) (simp_all cong: sum.case_cong)

lemma valid_temperature_upd:
  assumes "has_valid_temperature s = Inr True"
  shows "temperature_of (pf(''-99'' := v)) s = temperature_of pf s"
proof -
  from assms obtain elements t where
    "subscript s ''weather_elements'' = Inr elements"
    "subscript elements ''temperature'' = Inr t" "t \<noteq> PStr ''-99''"
    by (auto simp: has_valid_temperature_def and_then_eq_Inr split: if_splits)
  then show ?thesis by (simp add: temperature_of_def py_float_upd)
qed

lemma main_temperature_stats_upd:
  "main_temperature_stats (pf(''-99'' := v)) data = main_temperature_stats pf data"
proof (cases "filter_raising has_valid_temperature data")
  case (Inl e)
  then show ?thesis by (simp add: main_temperature_stats_def)
next
  case (Inr valid)
  have "collect (temperature_of (pf(''-99'' := v))) valid = collect (temperature_of pf) valid"
    by (intro collect_cong_set valid_temperature_upd filter_raising_holds [OF Inr])
  with Inr show ?thesis by (simp add: main_temperature_stats_def)
qed

lemma main_temperature_stats_filter:
  "main_temperature_stats pf (filter (\<lambda>s. \<not> is_sentinel s) data)
     = main_temperature_stats pf data"
  by (simp add: main_temperature_stats_def filter_raising_filter)

lemma temperature_extremes_upd:
  "temperature_extremes (pf(''-99'' := v)) data = temperature_extremes pf data"
  by (simp add: temperature_extremes_def valid_temps_loop_upd)

text \<open>
  C6. The highest and lowest temperature of \<open>print_temperature_summary\<close> and the count,
  average, highest and lowest temperature of step 4 of \<open>main\<close> are those of the data
  without the stations whose temperature is the string \<^verbatim>\<open>"-99"\<close>; and they do not
  depend on what \<^verbatim>\<open>float("-99")\<close> is, so the sentinel is never used as a number.
\<close>

theorem sentinel_excluded:
  "temperature_extremes pf data
     = temperature_extremes pf (filter (\<lambda>s. \<not> is_sentinel s) data)
   \<and> main_temperature_stats pf data
     = main_temperature_stats pf (filter (\<lambda>s. \<not> is_sentinel s) data)
   \<and> temperature_extremes (pf(''-99'' := v)) data = temperature_extremes pf data
   \<and> main_temperature_stats (pf(''-99'' := v)) data = main_temperature_stats pf data"
  by (simp add: temperature_extremes_filter main_temperature_stats_filter
        temperature_extremes_upd main_temperature_stats_upd)

lemma fixture_sentinel:
  "\<not> is_sentinel sample_station" "is_sentinel unparsable_station"
  "\<not> is_sentinel warm_station"
  by (simp_all add: is_sentinel_def field2_def sample_station_def unparsable_station_def
        warm_station_def station_record_def)

lemma fixture_extremes:
  "temperature_extremes sample_float [sample_station, warm_station]
     = Inr (Some ((305 / 10, warm_station), (215 / 10, sample_station)))"
  by (simp add: temperature_extremes_def station_label_def sample_float_def
        sample_station_def warm_station_def station_record_def)

lemma fixture_stats:
  "main_temperature_stats sample_float [sample_station, warm_station]
     = Inr (Some \<lparr>valid_count = 2, average_temperature = 26,
                   highest_temperature = 305 / 10, lowest_temperature = 215 / 10\<rparr>)"
  by (simp add: main_temperature_stats_def has_valid_temperature_def temperature_of_def
        py_mean_def py_sum_def sample_float_def sample_station_def warm_station_def
        station_record_def)

theorem sentinel_excluded_witness:
  "temperature_extremes sample_float [sample_station, unparsable_station, warm_station]
     = Inr (Some ((305 / 10, warm_station), (215 / 10, sample_station)))
   \<and> main_temperature_stats sample_float [sample_station, unparsable_station, warm_station]
     = Inr (Some \<lparr>valid_count = 2, average_temperature = 26,
                   highest_temperature = 305 / 10, lowest_temperature = 215 / 10\<rparr>)"
  using sentinel_excluded
    [of sample_float "[sample_station, unparsable_station, warm_station]" None]
  by (simp add: fixture_sentinel fixture_extremes fixture_stats)


end
